theory Spec2Isabelle
  imports Main "HOL-Library.Sublist" "HOL-Library.Multiset"
    "HOL-Library.Char_ord" "HOL-Library.List_Lexorder"
begin

section \<open>JavaScript values used by the publishing engine\<close>

text \<open>
  Strings are lists of 8-bit characters: the UTF-8 bytes of the JavaScript string.
  \<open>String.prototype.toLowerCase\<close> maps the ASCII capitals to their small letters.
  Outside ASCII, two characters have a lower case that contains an ASCII letter: the
  Kelvin sign U+212A (bytes E2 84 AA) becomes \<open>k\<close>, and the capital I with dot above
  U+0130 (bytes C4 B0) becomes \<open>i\<close> followed by the combining dot above U+0307 (bytes
  CC 87). Both are modelled. Every other non-ASCII character is left in place, where
  JavaScript may put another non-ASCII character; so the model and JavaScript agree on
  whether the lower case of a string is a given ASCII word, which is all the
  dispatcher's \<open>switch\<close> asks: its case labels are lower-case ASCII words.
\<close>

definition lower_char :: "char \<Rightarrow> char" where
  "lower_char c =
     (case map_of (zip ''ABCDEFGHIJKLMNOPQRSTUVWXYZ'' ''abcdefghijklmnopqrstuvwxyz'') c of
        Some l \<Rightarrow> l
      | None \<Rightarrow> c)"

definition KELVIN_SIGN :: string where
  "KELVIN_SIGN = [CHR 0xE2, CHR 0x84, CHR 0xAA]"

definition CAPITAL_I_WITH_DOT_ABOVE :: string where
  "CAPITAL_I_WITH_DOT_ABOVE = [CHR 0xC4, CHR 0xB0]"

definition COMBINING_DOT_ABOVE :: string where
  "COMBINING_DOT_ABOVE = [CHR 0xCC, CHR 0x87]"

fun toLowerCase :: "string \<Rightarrow> string" where
  "toLowerCase [] = []"
| "toLowerCase (c # cs) =
     (if take 3 (c # cs) = KELVIN_SIGN then CHR ''k'' # toLowerCase (drop 2 cs)
      else if take 2 (c # cs) = CAPITAL_I_WITH_DOT_ABOVE
        then CHR ''i'' # COMBINING_DOT_ABOVE @ toLowerCase (drop 1 cs)
      else lower_char c # toLowerCase cs)"

definition startsWith :: "string \<Rightarrow> string \<Rightarrow> bool" where
  "startsWith s p = (take (length p) s = p)"

text \<open>\<open>String.prototype.includes\<close>: the needle occurs somewhere in the string.\<close>

fun str_includes :: "string \<Rightarrow> string \<Rightarrow> bool" where
  "str_includes [] needle = (needle = [])"
| "str_includes (c # cs) needle = (startsWith (c # cs) needle \<or> str_includes cs needle)"

text \<open>
  A value read from an object that may lack the field is an option (\<open>None\<close> is
  \<open>undefined\<close>). JavaScript's truthiness test on such a value: \<open>undefined\<close> and the
  empty string are falsy.
\<close>

definition truthy :: "string option \<Rightarrow> bool" where
  "truthy v = (case v of None \<Rightarrow> False | Some s \<Rightarrow> s \<noteq> [])"

text \<open>\<open>a || b\<close> on optional strings, with a string as the fallback.\<close>

definition or_else :: "string option \<Rightarrow> string \<Rightarrow> string" where
  "or_else v d = (case v of None \<Rightarrow> d | Some s \<Rightarrow> if s = [] then d else s)"

definition or_opt :: "string option \<Rightarrow> string option \<Rightarrow> string option" where
  "or_opt v d = (if truthy v then v else d)"

text \<open>
  A thrown value. The catch blocks of the adapters read two things from it:
  \<open>error.message\<close> and \<open>error.response?.data?.error?.message\<close> (the message of a
  platform's error body, present on a failed HTTP call). Thrown values are objects, as
  the libraries used and \<open>new Error\<close> produce them, so reading these fields does not
  itself throw.
\<close>

record js_error =
  err_message :: "string option"
  response_message :: "string option"

definition Error :: "string \<Rightarrow> js_error" where
  "Error msg = \<lparr>err_message = Some msg, response_message = None\<rparr>"

text \<open>The descriptor of an uploaded file, as multer and the scheduler build it.\<close>

record media_file =
  path :: string
  mimetype :: string
  originalname :: string

text \<open>
  The result every adapter returns. A field an adapter does not set is \<open>None\<close>:
  Facebook sets \<open>postId\<close>, Telegram \<open>messageId\<close>, TikTok \<open>publishId\<close>.
\<close>

record platform_result =
  success :: bool
  platform :: string
  postId :: "string option"
  messageId :: "int option"
  publishId :: "string option"
  message :: "string option"
  error :: "string option"

definition failure :: "string \<Rightarrow> string option \<Rightarrow> platform_result" where
  "failure p e = \<lparr>success = False, platform = p, postId = None, messageId = None,
     publishId = None, message = None, error = e\<rparr>"

section \<open>Asynchronous calls and the requests they issue\<close>

text \<open>
  What a run of asynchronous code leaves behind outside the process: the HTTP requests
  it sent (method and URL as the source builds them), the Telegram client methods it
  called, and the timer waits it made (milliseconds).
\<close>

datatype event =
    Http string string
  | TelegramCall string string
  | Sleep nat

text \<open>
  An \<open>async\<close> function settles to a value or to a thrown error, and has issued a
  sequence of events by then. The functions below settle for every answer of the
  outside world: an upstream call that never answers is outside this model.
\<close>

type_synonym 'a async = "(js_error + 'a) \<times> event list"

definition resolve :: "'a \<Rightarrow> 'a async" where
  "resolve v = (Inr v, [])"

definition throw :: "js_error \<Rightarrow> 'a async" where
  "throw e = (Inl e, [])"

definition await :: "'a async \<Rightarrow> ('a \<Rightarrow> 'b async) \<Rightarrow> 'b async" where
  "await m f =
     (case m of
        (Inl e, t) \<Rightarrow> (Inl e, t)
      | (Inr v, t) \<Rightarrow> (case f v of (r, t') \<Rightarrow> (r, t @ t')))"

text \<open>\<open>try { body } catch (error) { handler }\<close>\<close>

definition try_catch :: "'a async \<Rightarrow> (js_error \<Rightarrow> 'a async) \<Rightarrow> 'a async" where
  "try_catch body handler =
     (case body of
        (Inl e, t) \<Rightarrow> (case handler e of (r, t') \<Rightarrow> (r, t @ t'))
      | (Inr v, t) \<Rightarrow> (Inr v, t))"

text \<open>An external call: its answer comes from the world, and the call is logged.\<close>

definition request :: "event \<Rightarrow> (js_error + 'a) \<Rightarrow> 'a async" where
  "request ev answer = (answer, [ev])"

text \<open>
  \<open>Promise.all\<close>: every promise has been started, so every request was issued; the
  result is the list of values, or a rejection. JavaScript rejects with whichever promise
  rejects first in time; the model takes the first in list order.
\<close>

fun first_error :: "(js_error + 'a) list \<Rightarrow> js_error option" where
  "first_error [] = None"
| "first_error (Inl e # rs) = Some e"
| "first_error (Inr v # rs) = first_error rs"

fun values_of :: "(js_error + 'a) list \<Rightarrow> 'a list" where
  "values_of [] = []"
| "values_of (Inl e # rs) = values_of rs"
| "values_of (Inr v # rs) = v # values_of rs"

definition Promise_all :: "'a async list \<Rightarrow> ('a list) async" where
  "Promise_all ps =
     (case first_error (map fst ps) of
        Some e \<Rightarrow> (Inl e, concat (map snd ps))
      | None \<Rightarrow> (Inr (values_of (map fst ps)), concat (map snd ps)))"

text \<open>A synchronous call that may throw (file-system reads): nothing is sent.\<close>

definition sync :: "(js_error + 'a) \<Rightarrow> 'a async" where
  "sync answer = (answer, [])"

text \<open>A template literal prints \<open>undefined\<close> for a missing value.\<close>

definition template :: "string option \<Rightarrow> string" where
  "template v = (case v of None \<Rightarrow> ''undefined'' | Some s \<Rightarrow> s)"

text \<open>\<open>files[0].path\<close>: reading a field of \<open>undefined\<close> throws a TypeError.\<close>

definition first_path :: "media_file list \<Rightarrow> string async" where
  "first_path fs =
     (case fs of
        [] \<Rightarrow> throw (Error ''Cannot read properties of undefined (reading path)'')
      | f # _ \<Rightarrow> resolve (path f))"

section \<open>The outside world\<close>

text \<open>
  The answers of the platforms and of the local collaborators are parameters: every
  theorem below holds for all of them. An answer is a function of the request alone (and,
  for the status poll, of its number), so the order in which concurrent adapters reach the
  network plays no part. An HTTP body is a list of named fields; a response body is an
  object with the fields the adapters read.
\<close>

datatype field_value = Text string | File string | MediaIds "string option list"

record graph_data =
  data_id :: "string option"
  data_post_id :: "string option"

record status_data =
  status_code :: "string option"
  status_text :: "string option"

datatype telegram_result = Message "int option" | Messages "int option list"

record tiktok_init =
  init_error_code :: "string option"
  init_error_message :: "string option"
  init_data :: "(string option \<times> string option) option"

record world =
  graph_post :: "string \<Rightarrow> (string \<times> field_value) list \<Rightarrow> js_error + graph_data"
  graph_status :: "string \<Rightarrow> nat \<Rightarrow> js_error + status_data"
  bot_send :: "string \<Rightarrow> string \<Rightarrow> string \<Rightarrow> string list \<Rightarrow> string option
                 \<Rightarrow> js_error + telegram_result"
  statSync :: "string \<Rightarrow> js_error + nat"
  tiktok_init_post :: "string \<Rightarrow> nat \<Rightarrow> js_error + tiktok_init"
  tiktok_put :: "string \<Rightarrow> string \<Rightarrow> nat \<Rightarrow> js_error + unit"
  settings_getAllForUser :: "string \<Rightarrow> js_error + (string \<times> (string \<times> string) list) list"
  path_extname :: "string \<Rightarrow> string"
  path_basename :: "string \<Rightarrow> string"

section \<open>Facebook adapter (services/facebook.js)\<close>

definition GRAPH_API_URL :: string where
  "GRAPH_API_URL = ''https://graph.facebook.com/v19.0''"

definition GRAPH_VIDEO_URL :: string where
  "GRAPH_VIDEO_URL = ''https://graph-video.facebook.com/v19.0''"

record fb_config =
  pageId :: "string option"
  accessToken :: "string option"

definition fb_postSinglePhoto :: "world \<Rightarrow> string \<Rightarrow> string \<Rightarrow> fb_config \<Rightarrow> graph_data async" where
  "fb_postSinglePhoto w filePath cap config =
     (let form = [(''source'', File filePath)]
                 @ (if cap \<noteq> [] then [(''message'', Text cap)] else [])
                 @ [(''access_token'', Text (template (accessToken config)))];
          url = GRAPH_API_URL @ ''/'' @ template (pageId config) @ ''/photos''
      in request (Http ''POST'' url) (graph_post w url form))"

definition uploadUnpublishedPhoto :: "world \<Rightarrow> string \<Rightarrow> fb_config \<Rightarrow> (string option) async" where
  "uploadUnpublishedPhoto w filePath config =
     (let form = [(''source'', File filePath), (''published'', Text ''false''),
                  (''access_token'', Text (template (accessToken config)))];
          url = GRAPH_API_URL @ ''/'' @ template (pageId config) @ ''/photos''
      in await (request (Http ''POST'' url) (graph_post w url form))
           (\<lambda>response. resolve (data_id response)))"

definition fb_postMultiplePhotos ::
  "world \<Rightarrow> media_file list \<Rightarrow> string \<Rightarrow> fb_config \<Rightarrow> graph_data async" where
  "fb_postMultiplePhotos w fs cap config =
     await (Promise_all (map (\<lambda>file. uploadUnpublishedPhoto w (path file) config) fs))
       (\<lambda>mediaIds.
          let url = GRAPH_API_URL @ ''/'' @ template (pageId config) @ ''/feed'';
              body = [(''message'', Text cap), (''attached_media'', MediaIds mediaIds),
                      (''access_token'', Text (template (accessToken config)))]
          in request (Http ''POST'' url) (graph_post w url body))"

definition fb_postVideo :: "world \<Rightarrow> string \<Rightarrow> string \<Rightarrow> fb_config \<Rightarrow> graph_data async" where
  "fb_postVideo w filePath cap config =
     (let form = [(''source'', File filePath)]
                 @ (if cap \<noteq> [] then [(''description'', Text cap)] else [])
                 @ [(''access_token'', Text (template (accessToken config)))];
          url = GRAPH_VIDEO_URL @ ''/'' @ template (pageId config) @ ''/videos''
      in request (Http ''POST'' url) (graph_post w url form))"

definition postToFacebook ::
  "world \<Rightarrow> media_file list \<Rightarrow> string \<Rightarrow> string \<Rightarrow> (string \<rightharpoonup> string)
     \<Rightarrow> platform_result async" where
  "postToFacebook w fs cap mediaType userSettings =
     try_catch
       (let config = \<lparr>pageId = userSettings ''facebook_page_id'',
                       accessToken = userSettings ''facebook_access_token''\<rparr>
        in if \<not> truthy (pageId config) \<or> \<not> truthy (accessToken config)
           then throw (Error ''Facebook credentials not configured'')
           else await
                  (if mediaType = ''video''
                   then await (first_path fs) (\<lambda>p. fb_postVideo w p cap config)
                   else if length fs = 1
                   then await (first_path fs) (\<lambda>p. fb_postSinglePhoto w p cap config)
                   else fb_postMultiplePhotos w fs cap config)
                  (\<lambda>result. resolve
                     \<lparr>success = True, platform = ''facebook'',
                      postId = or_opt (data_id result) (data_post_id result),
                      messageId = None, publishId = None,
                      message = Some ''Successfully posted to Facebook'', error = None\<rparr>))
       (\<lambda>error.
          let errorMessage = or_opt (response_message error) (err_message error)
          in resolve (failure ''facebook'' errorMessage))"

section \<open>Telegram adapter (services/telegram.js)\<close>

text \<open>
  The module keeps one client object per bot token in a cache; a client holds no state
  the adapter reads, so the cache is not modelled.
\<close>

record tg_config =
  botToken :: "string option"
  chatId :: "string option"

definition tg_postSinglePhoto ::
  "world \<Rightarrow> string \<Rightarrow> string \<Rightarrow> tg_config \<Rightarrow> telegram_result async" where
  "tg_postSinglePhoto w filePath cap config =
     request (TelegramCall ''sendPhoto'' (template (chatId config)))
       (bot_send w ''sendPhoto'' (template (botToken config)) (template (chatId config))
          [filePath] (Some cap))"

definition tg_postMultiplePhotos ::
  "world \<Rightarrow> media_file list \<Rightarrow> string \<Rightarrow> tg_config \<Rightarrow> telegram_result async" where
  "tg_postMultiplePhotos w fs cap config =
     request (TelegramCall ''sendMediaGroup'' (template (chatId config)))
       (bot_send w ''sendMediaGroup'' (template (botToken config)) (template (chatId config))
          (map path fs) (if fs \<noteq> [] \<and> cap \<noteq> [] then Some cap else None))"

definition tg_postVideo ::
  "world \<Rightarrow> string \<Rightarrow> string \<Rightarrow> tg_config \<Rightarrow> telegram_result async" where
  "tg_postVideo w filePath cap config =
     request (TelegramCall ''sendVideo'' (template (chatId config)))
       (bot_send w ''sendVideo'' (template (botToken config)) (template (chatId config))
          [filePath] (Some cap))"

text \<open>\<open>Array.isArray(result) ? result[0].message_id : result.message_id\<close>\<close>

definition tg_message_id :: "telegram_result \<Rightarrow> (int option) async" where
  "tg_message_id r =
     (case r of
        Message m \<Rightarrow> resolve m
      | Messages [] \<Rightarrow> throw (Error ''Cannot read properties of undefined (reading message_id)'')
      | Messages (m # _) \<Rightarrow> resolve m)"

definition postToTelegram ::
  "world \<Rightarrow> media_file list \<Rightarrow> string \<Rightarrow> string \<Rightarrow> (string \<rightharpoonup> string)
     \<Rightarrow> platform_result async" where
  "postToTelegram w fs cap mediaType userSettings =
     try_catch
       (let config = \<lparr>botToken = userSettings ''telegram_bot_token'',
                       chatId = userSettings ''telegram_chat_id''\<rparr>
        in if \<not> truthy (botToken config) \<or> \<not> truthy (chatId config)
           then throw (Error ''Telegram credentials not configured'')
           else await
                  (if mediaType = ''video''
                   then await (first_path fs) (\<lambda>p. tg_postVideo w p cap config)
                   else if length fs = 1
                   then await (first_path fs) (\<lambda>p. tg_postSinglePhoto w p cap config)
                   else tg_postMultiplePhotos w fs cap config)
                  (\<lambda>result. await (tg_message_id result)
                     (\<lambda>mid. resolve
                        \<lparr>success = True, platform = ''telegram'', postId = None,
                         messageId = mid, publishId = None,
                         message = Some ''Successfully posted to Telegram'', error = None\<rparr>)))
       (\<lambda>error. resolve (failure ''telegram'' (err_message error)))"

section \<open>TikTok adapter (services/tiktok.js)\<close>

definition TIKTOK_API_URL :: string where
  "TIKTOK_API_URL = ''https://open.tiktokapis.com/v2''"

record tt_config =
  tt_accessToken :: "string option"
  openId :: "string option"

definition initializeUpload :: "world \<Rightarrow> nat \<Rightarrow> tt_config \<Rightarrow> tiktok_init async" where
  "initializeUpload w fileSize config =
     request (Http ''POST'' (TIKTOK_API_URL @ ''/post/publish/video/init/''))
       (tiktok_init_post w (template (tt_accessToken config)) fileSize)"

definition uploadVideoChunk :: "world \<Rightarrow> string option \<Rightarrow> string \<Rightarrow> nat \<Rightarrow> unit async" where
  "uploadVideoChunk w uploadUrl filePath fileSize =
     request (Http ''PUT'' (template uploadUrl))
       (tiktok_put w (template uploadUrl) filePath fileSize)"

definition tt_postVideo :: "world \<Rightarrow> string \<Rightarrow> string \<Rightarrow> tt_config \<Rightarrow> (string option) async" where
  "tt_postVideo w filePath cap config =
     (if \<not> truthy (tt_accessToken config) \<or> \<not> truthy (openId config)
      then throw (Error ''TikTok credentials not configured'')
      else await (sync (statSync w filePath))
        (\<lambda>fileSize. await (initializeUpload w fileSize config)
          (\<lambda>initResponse.
             if truthy (init_error_code initResponse)
             then throw (Error (or_else (init_error_message initResponse)
                                  ''Failed to initialize TikTok upload''))
             else (case init_data initResponse of
                     None \<Rightarrow>
                       throw (Error ''Cannot read properties of undefined (reading upload_url)'')
                   | Some (uploadUrl, publish_id) \<Rightarrow>
                       await (uploadVideoChunk w uploadUrl filePath fileSize)
                         (\<lambda>_. resolve publish_id)))))"

definition postToTikTok ::
  "world \<Rightarrow> media_file list \<Rightarrow> string \<Rightarrow> string \<Rightarrow> (string \<rightharpoonup> string)
     \<Rightarrow> platform_result async" where
  "postToTikTok w fs cap mediaType userSettings =
     try_catch
       (if mediaType \<noteq> ''video''
        then resolve (failure ''tiktok'' (Some ''TikTok only supports video uploads''))
        else
          let config = \<lparr>tt_accessToken = userSettings ''tiktok_access_token'',
                         openId = userSettings ''tiktok_open_id''\<rparr>
          in await (await (first_path fs) (\<lambda>p. tt_postVideo w p cap config))
               (\<lambda>publish_id. resolve
                  \<lparr>success = True, platform = ''tiktok'', postId = None, messageId = None,
                   publishId = publish_id,
                   message = Some ''Video uploaded to TikTok (check your drafts)'',
                   error = None\<rparr>))
       (\<lambda>error.
          let errorMessage = or_opt (response_message error) (err_message error)
          in resolve (failure ''tiktok'' errorMessage))"

section \<open>Fan-out dispatcher (services/uploader.js)\<close>

definition isImage :: "string \<Rightarrow> bool" where
  "isImage mt = startsWith mt ''image/''"

definition isVideo :: "string \<Rightarrow> bool" where
  "isVideo mt = startsWith mt ''video/''"

record post_options =
  platforms :: "string list"
  files :: "media_file list"
  caption :: string
  userSettings :: "string \<rightharpoonup> string"

text \<open>
  The body of the \<open>async (platform) => { switch ... }\<close> arrow that
  \<open>platforms.map\<close> applies to each requested name.
\<close>

definition postingPromise ::
  "world \<Rightarrow> media_file list \<Rightarrow> string \<Rightarrow> string \<Rightarrow> (string \<rightharpoonup> string) \<Rightarrow> string
     \<Rightarrow> platform_result async" where
  "postingPromise w fs cap mediaType settings p =
     (let name = toLowerCase p
      in if name = ''facebook'' then postToFacebook w fs cap mediaType settings
         else if name = ''telegram'' then postToTelegram w fs cap mediaType settings
         else if name = ''tiktok'' then postToTikTok w fs cap mediaType settings
         else if name = ''instagram''
           then resolve (failure ''instagram'' (Some ''Instagram integration coming soon''))
         else if name = ''youtube''
           then resolve (failure ''youtube'' (Some ''YouTube integration coming soon''))
         else resolve (failure p (Some (''Unknown platform: '' @ p))))"

text \<open>
  One step of the \<open>postResults.forEach\<close> loop over the outcomes of
  \<open>Promise.allSettled\<close>: a fulfilled promise contributes its value, a rejected one a
  failure result tagged \<open>platforms[index]\<close>.
\<close>

definition settle :: "string \<Rightarrow> js_error + platform_result \<Rightarrow> platform_result" where
  "settle p outcome =
     (case outcome of
        Inr v \<Rightarrow> v
      | Inl reason \<Rightarrow> failure p (Some (or_else (err_message reason) ''Unknown error'')))"

text \<open>
  The loop itself. \<open>postResults\<close> has one outcome per promise, in the order of the
  promises; \<open>index\<close> counts from 0, and \<open>platforms[index]\<close> is \<open>undefined\<close> past the end
  of \<open>platforms\<close> (the empty tag below), which does not happen when the outcomes come from
  \<open>platforms.map\<close>.
\<close>

fun collect :: "string list \<Rightarrow> (js_error + platform_result) list \<Rightarrow> platform_result list" where
  "collect ps [] = []"
| "collect [] (r # rs) = settle [] r # collect [] rs"
| "collect (p # ps) (r # rs) = settle p r # collect ps rs"

definition mediaTypeOf :: "string \<Rightarrow> string" where
  "mediaTypeOf mt = (if isVideo mt then ''video'' else ''photo'')"

definition postToAllPlatforms :: "world \<Rightarrow> post_options \<Rightarrow> (platform_result list) async" where
  "postToAllPlatforms w opts =
     (case files opts of
        [] \<Rightarrow> throw (Error ''Cannot read properties of undefined (reading mimetype)'')
      | f # _ \<Rightarrow>
          let mediaType = mediaTypeOf (mimetype f);
              postingPromises =
                map (postingPromise w (files opts) (caption opts) mediaType (userSettings opts))
                  (platforms opts);
              postResults = map fst postingPromises
          in (Inr (collect (platforms opts) postResults), concat (map snd postingPromises)))"

section \<open>Credential fields (routes/settings.js, routes/post.js)\<close>

text \<open>
  The required credential fields of each platform, and the test the status route makes on
  the flat settings object (\<open>!!(settings.facebook_page_id && settings.facebook_access_token)\<close>
  and so on): a platform is configured when every required field is a non-empty string.
\<close>

definition platformFields :: "(string \<times> string list) list" where
  "platformFields =
     [(''facebook'', [''page_id'', ''access_token'']),
      (''telegram'', [''bot_token'', ''chat_id'']),
      (''tiktok'', [''access_token'', ''open_id'']),
      (''instagram'', [''account_id'', ''access_token'']),
      (''youtube'', [''client_id'', ''client_secret'', ''refresh_token''])]"

definition configured :: "(string \<rightharpoonup> string) \<Rightarrow> string \<Rightarrow> bool" where
  "configured settings name =
     (case map_of platformFields name of
        None \<Rightarrow> False
      | Some required \<Rightarrow> list_all (\<lambda>field. truthy (settings (name @ ''_'' @ field))) required)"

section \<open>Instagram container processing (services/instagram.js)\<close>

record ig_config =
  accountId :: "string option"
  ig_accessToken :: "string option"

definition sleep :: "nat \<Rightarrow> unit async" where
  "sleep ms = request (Sleep ms) (Inr ())"

text \<open>
  The \<open>for (let i = 0; i < maxAttempts; i++)\<close> loop of \<open>waitForMediaReady\<close>, entered
  at counter \<open>i\<close>. The world answers the \<open>i\<close>-th status poll of a container by
  \<open>graph_status w url i\<close>, so successive polls may get different answers.
\<close>

function wait_loop :: "world \<Rightarrow> string \<Rightarrow> string \<Rightarrow> nat \<Rightarrow> nat \<Rightarrow> bool async" where
  "wait_loop w containerId token maxAttempts i =
     (if i < maxAttempts
      then await (request (Http ''GET'' (GRAPH_API_URL @ ''/'' @ containerId))
                    (graph_status w (GRAPH_API_URL @ ''/'' @ containerId) i))
             (\<lambda>data.
                if status_code data = Some ''FINISHED'' then resolve True
                else if status_code data = Some ''ERROR''
                then throw (Error (''Media processing failed: ''
                                     @ or_else (status_text data) ''Unknown error''))
                else await (sleep 5000)
                       (\<lambda>_. wait_loop w containerId token maxAttempts (i + 1)))
      else throw (Error ''Media processing timed out''))"
  by pat_completeness auto
termination
  by (relation "measure (\<lambda>(w, containerId, token, maxAttempts, i). maxAttempts - i)") auto

definition waitForMediaReady :: "world \<Rightarrow> string \<Rightarrow> string \<Rightarrow> nat \<Rightarrow> bool async" where
  "waitForMediaReady w containerId token maxAttempts =
     wait_loop w containerId token maxAttempts 0"

definition publishMedia :: "world \<Rightarrow> string \<Rightarrow> ig_config \<Rightarrow> graph_data async" where
  "publishMedia w containerId config =
     (let url = GRAPH_API_URL @ ''/'' @ template (accountId config) @ ''/media_publish''
      in request (Http ''POST'' url)
           (graph_post w url [(''creation_id'', Text containerId),
                              (''access_token'', Text (template (ig_accessToken config)))]))"

definition ig_postVideo :: "world \<Rightarrow> string \<Rightarrow> string \<Rightarrow> ig_config \<Rightarrow> graph_data async" where
  "ig_postVideo w publicUrl cap config =
     (let url = GRAPH_API_URL @ ''/'' @ template (accountId config) @ ''/media''
      in await (request (Http ''POST'' url)
                  (graph_post w url [(''video_url'', Text publicUrl), (''caption'', Text cap),
                                     (''media_type'', Text ''REELS''),
                                     (''access_token'', Text (template (ig_accessToken config)))]))
           (\<lambda>containerResponse.
              let containerId = template (data_id containerResponse)
              in await (waitForMediaReady w containerId (template (ig_accessToken config)) 60)
                   (\<lambda>_. publishMedia w containerId config)))"

text \<open>The \<open>for (const url of publicUrls)\<close> loop: one item container per URL, in turn.\<close>

fun create_items :: "world \<Rightarrow> ig_config \<Rightarrow> string list \<Rightarrow> (string option list) async" where
  "create_items w config [] = resolve []"
| "create_items w config (u # us) =
     (let url = GRAPH_API_URL @ ''/'' @ template (accountId config) @ ''/media''
      in await (request (Http ''POST'' url)
                  (graph_post w url [(''image_url'', Text u), (''is_carousel_item'', Text ''true''),
                                     (''access_token'', Text (template (ig_accessToken config)))]))
           (\<lambda>response. await (create_items w config us)
              (\<lambda>ids. resolve (data_id response # ids))))"

definition ig_postCarousel ::
  "world \<Rightarrow> string list \<Rightarrow> string \<Rightarrow> ig_config \<Rightarrow> graph_data async" where
  "ig_postCarousel w publicUrls cap config =
     await (create_items w config publicUrls)
       (\<lambda>itemIds.
          let url = GRAPH_API_URL @ ''/'' @ template (accountId config) @ ''/media''
          in await (request (Http ''POST'' url)
                      (graph_post w url [(''media_type'', Text ''CAROUSEL''),
                                         (''children'', MediaIds itemIds), (''caption'', Text cap),
                                         (''access_token'', Text (template (ig_accessToken config)))]))
               (\<lambda>carouselResponse.
                  let carouselId = template (data_id carouselResponse)
                  in await (waitForMediaReady w carouselId (template (ig_accessToken config)) 60)
                       (\<lambda>_. publishMedia w carouselId config)))"

section \<open>Scheduled-intent store (database/database.js, table \<open>scheduled_posts\<close>)\<close>

text \<open>
  A row of the table. \<open>status\<close> and \<open>scheduled_at\<close> are TEXT, as in the schema; SQLite
  compares stored datetime text byte by byte, which is the lexicographic order on
  strings. The columns \<open>created_at\<close> and \<open>updated_at\<close> are not modelled. The JSON text of
  \<open>platforms\<close>, \<open>media_paths\<close> and \<open>result\<close> is kept in parsed form.
\<close>

datatype payload = Results "platform_result list" | ErrorInfo "string option"

record scheduled_post =
  post_id :: string
  user_id :: string
  post_platforms :: "string list"
  post_caption :: string
  media_paths :: "string list"
  scheduled_at :: string
  status :: string
  result :: "payload option"

text \<open>
  The database: the rows in insertion order, and a journal of the status writes made so
  far (row id, status written, payload written), oldest first. The journal is not in the
  source; it records the order of the \<open>UPDATE\<close> statements.
\<close>

record db =
  rows :: "scheduled_post list"
  journal :: "(string \<times> string \<times> payload option) list"

text \<open>\<open>INSERT\<close>: the primary key rejects a second row with the same id.\<close>

definition create ::
  "db \<Rightarrow> string \<Rightarrow> string \<Rightarrow> string list \<Rightarrow> string \<Rightarrow> string list \<Rightarrow> string \<Rightarrow> js_error + db" where
  "create d ident userId plats cap mediaPaths scheduledAt =
     (if ident \<in> set (map post_id (rows d))
      then Inl (Error ''UNIQUE constraint failed: scheduled_posts.id'')
      else Inr (d\<lparr>rows := rows d @
             [\<lparr>post_id = ident, user_id = userId, post_platforms = plats, post_caption = cap,
               media_paths = mediaPaths, scheduled_at = scheduledAt, status = ''pending'',
               result = None\<rparr>]\<rparr>))"

text \<open>
  \<open>SELECT * ... WHERE status = 'pending' AND scheduled_at <= datetime('now','localtime')
  ORDER BY scheduled_at ASC\<close>; \<open>now\<close> is the text \<open>datetime('now','localtime')\<close> gives.
\<close>

definition getPending :: "string \<Rightarrow> db \<Rightarrow> scheduled_post list" where
  "getPending now d =
     sort_key scheduled_at
       (filter (\<lambda>r. status r = ''pending'' \<and> scheduled_at r \<le> now) (rows d))"

definition findById :: "db \<Rightarrow> string \<Rightarrow> scheduled_post option" where
  "findById d ident = find (\<lambda>r. post_id r = ident) (rows d)"

definition updateStatus :: "db \<Rightarrow> string \<Rightarrow> string \<Rightarrow> payload option \<Rightarrow> db" where
  "updateStatus d ident st res =
     \<lparr>rows = map (\<lambda>r. if post_id r = ident then r\<lparr>status := st, result := res\<rparr> else r) (rows d),
      journal = journal d @ [(ident, st, res)]\<rparr>"

definition delete :: "db \<Rightarrow> string \<Rightarrow> db" where
  "delete d ident = d\<lparr>rows := filter (\<lambda>r. post_id r \<noteq> ident) (rows d)\<rparr>"

section \<open>Scheduler loop (services/scheduler.js)\<close>

definition getMimeType :: "world \<Rightarrow> string \<Rightarrow> string" where
  "getMimeType w filePath =
     (case map_of [(''.jpg'', ''image/jpeg''), (''.jpeg'', ''image/jpeg''),
                   (''.png'', ''image/png''), (''.gif'', ''image/gif''),
                   (''.webp'', ''image/webp''), (''.mp4'', ''video/mp4''),
                   (''.mov'', ''video/quicktime''), (''.avi'', ''video/x-msvideo''),
                   (''.webm'', ''video/webm'')]
             (toLowerCase (path_extname w filePath)) of
        Some mt \<Rightarrow> mt
      | None \<Rightarrow> ''application/octet-stream'')"

text \<open>
  The two nested \<open>forEach\<close> loops that flatten the per-platform settings into
  \<open>userSettings[`${platform}_${key}`]\<close>; a later assignment to a key overwrites.
\<close>

definition flattenSettings :: "(string \<times> (string \<times> string) list) list \<Rightarrow> (string \<rightharpoonup> string)" where
  "flattenSettings allSettings =
     foldl (\<lambda>us (plat, platformSettings).
              foldl (\<lambda>us' (key, v). us'(plat @ ''_'' @ key \<mapsto> v)) us platformSettings)
       Map.empty allSettings"

datatype process_outcome = Processed "platform_result list" | ProcessFailed "string option"

text \<open>The \<open>catch\<close> block of \<open>processScheduledPost\<close>.\<close>

definition mark_failed :: "db \<Rightarrow> scheduled_post \<Rightarrow> js_error \<Rightarrow> process_outcome \<times> db" where
  "mark_failed d post e =
     (ProcessFailed (err_message e),
      updateStatus d (post_id post) ''failed'' (Some (ErrorInfo (err_message e))))"

definition processScheduledPost ::
  "world \<Rightarrow> db \<Rightarrow> scheduled_post \<Rightarrow> (process_outcome \<times> db) \<times> event list" where
  "processScheduledPost w d post =
     (let d1 = updateStatus d (post_id post) ''processing'' None
      in (case settings_getAllForUser w (user_id post) of
            Inl e \<Rightarrow> (mark_failed d1 post e, [])
          | Inr allSettings \<Rightarrow>
              (let settings = flattenSettings allSettings;
                   fs = map (\<lambda>filePath. \<lparr>path = filePath, mimetype = getMimeType w filePath,
                                          originalname = path_basename w filePath\<rparr>)
                          (media_paths post)
               in (case postToAllPlatforms w
                          \<lparr>platforms = post_platforms post, files = fs,
                           caption = post_caption post, userSettings = settings\<rparr> of
                     (Inl e, t) \<Rightarrow> (mark_failed d1 post e, t)
                   | (Inr results, t) \<Rightarrow>
                       (let allSuccess = list_all success results;
                            st = (if allSuccess then ''completed'' else ''partial'')
                        in ((Processed results,
                             updateStatus d1 (post_id post) st (Some (Results results))),
                            t))))))"



text \<open>
  \<open>processScheduledPost\<close> has one \<open>await\<close>, on the dispatcher. What it does between its
  first write and that point, \<open>dispatchPost\<close>, reads the post and the world and not the
  database; what it does once the dispatch has settled, \<open>recordOutcome\<close>, is its last
  write, in the \<open>try\<close> block or in the \<open>catch\<close> block.
\<close>

definition dispatchPost :: "world \<Rightarrow> scheduled_post \<Rightarrow> (platform_result list) async" where
  "dispatchPost w post =
     (case settings_getAllForUser w (user_id post) of
        Inl e \<Rightarrow> throw e
      | Inr allSettings \<Rightarrow>
          postToAllPlatforms w
            \<lparr>platforms = post_platforms post,
             files = map (\<lambda>filePath. \<lparr>path = filePath, mimetype = getMimeType w filePath,
                                       originalname = path_basename w filePath\<rparr>)
                       (media_paths post),
             caption = post_caption post,
             userSettings = flattenSettings allSettings\<rparr>)"

definition recordOutcome ::
  "db \<Rightarrow> scheduled_post \<Rightarrow> js_error + platform_result list \<Rightarrow> process_outcome \<times> db" where
  "recordOutcome d post outcome =
     (case outcome of
        Inl e \<Rightarrow> mark_failed d post e
      | Inr results \<Rightarrow>
          (Processed results,
           updateStatus d (post_id post)
             (if list_all success results then ''completed'' else ''partial'')
             (Some (Results results))))"


section \<open>Scheduling routes (routes/scheduled.js)\<close>

text \<open>
  The server's state as the routes see it: the database and the set of paths that exist
  on disk. \<open>fs.existsSync\<close> is membership and \<open>fs.unlinkSync\<close> of an existing path removes
  it; a file system that refuses to unlink is not modelled.
\<close>

record server =
  database :: db
  disk :: "string set"

record http_response =
  code :: nat
  body_success :: bool
  body_error :: "string option"
  body_message :: "string option"
  body_post :: "scheduled_post option"

definition reject :: "nat \<Rightarrow> string \<Rightarrow> http_response" where
  "reject c e = \<lparr>code = c, body_success = False, body_error = Some e, body_message = None,
                 body_post = None\<rparr>"

text \<open>
  What the handlers take from the JavaScript runtime: the clock, \<open>new Date(text)\<close>
  (milliseconds, \<open>None\<close> for an invalid date), the local calendar fields of an instant
  (\<open>getFullYear\<close>, \<open>getMonth\<close>, \<open>getDate\<close>, \<open>getHours\<close>, \<open>getMinutes\<close>, \<open>getSeconds\<close>),
  \<open>JSON.parse\<close> on the platform list, and the identifier \<open>uuidv4()\<close> returns.
\<close>

record local_fields =
  fullYear :: nat
  month :: nat
  date :: nat
  hours :: nat
  minutes :: nat
  seconds :: nat

record runtime =
  now_ms :: int
  Date_parse :: "string \<Rightarrow> int option"
  local_time :: "int \<Rightarrow> local_fields"
  JSON_parse :: "string \<Rightarrow> js_error + string list"
  uuidv4 :: string

datatype platforms_field = PlatformsText string | PlatformsArray "string list"

record schedule_request =
  session_userId :: "string option"
  body_platforms :: "platforms_field option"
  body_caption :: "string option"
  body_scheduledAt :: "string option"
  req_files :: "media_file list"

text \<open>\<open>String(n)\<close> for a natural number, and \<open>padStart(2, '0')\<close>.\<close>

definition digit :: "nat \<Rightarrow> char" where
  "digit n = ''0123456789'' ! n"

fun String_nat :: "nat \<Rightarrow> string" where
  "String_nat n =
     (if n < 10 then [digit n] else String_nat (n div 10) @ [digit (n mod 10)])"

definition padStart2 :: "string \<Rightarrow> string" where
  "padStart2 s = replicate (2 - length s) CHR ''0'' @ s"

definition localDateStr :: "local_fields \<Rightarrow> string" where
  "localDateStr t =
     String_nat (fullYear t) @ ''-'' @ padStart2 (String_nat (month t + 1)) @ ''-''
     @ padStart2 (String_nat (date t)) @ '' '' @ padStart2 (String_nat (hours t)) @ '':''
     @ padStart2 (String_nat (minutes t)) @ '':'' @ padStart2 (String_nat (seconds t))"

text \<open>
  Calendar fields as \<open>Date\<close> gives them for a four-digit year, and the order in time of
  two such readings of the local clock.
\<close>

definition calendar_fields :: "local_fields \<Rightarrow> bool" where
  "calendar_fields t =
     (1000 \<le> fullYear t \<and> fullYear t \<le> 9999 \<and> month t \<le> 11 \<and> date t \<le> 31
      \<and> hours t \<le> 23 \<and> minutes t \<le> 59 \<and> seconds t \<le> 59)"

definition earlier :: "local_fields \<Rightarrow> local_fields \<Rightarrow> bool" where
  "earlier t t' =
     (fullYear t < fullYear t' \<or> fullYear t = fullYear t' \<and>
     (month t < month t' \<or> month t = month t' \<and>
     (date t < date t' \<or> date t = date t' \<and>
     (hours t < hours t' \<or> hours t = hours t' \<and>
     (minutes t < minutes t' \<or> minutes t = minutes t' \<and> seconds t < seconds t')))))"

text \<open>
  The multer middleware \<open>upload.array('media', 10)\<close> with disk storage runs before the
  handler: it writes every received file under the uploads directory and hands the
  handler the descriptors in \<open>req.files\<close>, each with the path it was written to.
\<close>

definition upload_array :: "schedule_request \<Rightarrow> server \<Rightarrow> server" where
  "upload_array req srv = srv\<lparr>disk := disk srv \<union> set (map path (req_files req))\<rparr>"

text \<open>\<open>requireAuth\<close>: a request without a session user is answered 401.\<close>

definition requireAuth :: "string option \<Rightarrow> bool" where
  "requireAuth session = truthy session"

definition platforms_falsy :: "platforms_field option \<Rightarrow> bool" where
  "platforms_falsy p = (case p of None \<Rightarrow> True | Some (PlatformsText s) \<Rightarrow> s = []
                         | Some (PlatformsArray _) \<Rightarrow> False)"

text \<open>The handler of \<open>POST /api/scheduled\<close>, entered after the two middlewares.\<close>

text \<open>
  \<open>typeof platforms === 'string' ? JSON.parse(platforms) : platforms\<close>. The handler
  has answered 400 to a missing list before it gets here.
\<close>

definition platformList_of :: "runtime \<Rightarrow> platforms_field option \<Rightarrow> js_error + string list" where
  "platformList_of rt p =
     (case p of
        Some (PlatformsText s) \<Rightarrow> JSON_parse rt s
      | Some (PlatformsArray ps) \<Rightarrow> Inr ps
      | None \<Rightarrow> Inr [])"

definition create_handler ::
  "runtime \<Rightarrow> schedule_request \<Rightarrow> server \<Rightarrow> http_response \<times> server" where
  "create_handler rt req srv =
     (if req_files req = [] then (reject 400 ''At least one media file is required'', srv)
      else if platforms_falsy (body_platforms req)
      then (reject 400 ''At least one platform must be selected'', srv)
      else if \<not> truthy (body_scheduledAt req)
      then (reject 400 ''Scheduled time is required'', srv)
      else
        (case Date_parse rt (template (body_scheduledAt req)) of
           None \<Rightarrow> (reject 400 ''Invalid scheduled time format'', srv)
         | Some scheduledDate \<Rightarrow>
             (if scheduledDate \<le> now_ms rt
              then (reject 400 ''Scheduled time must be in the future'', srv)
              else
                (case platformList_of rt (body_platforms req) of
                   Inl e \<Rightarrow> (reject 500 ''Failed to schedule post'', srv)
                 | Inr platformList \<Rightarrow>
                     (let mediaPaths = map path (req_files req);
                          postId' = uuidv4 rt
                      in (case create (database srv) postId' (template (session_userId req))
                                 platformList (or_else (body_caption req) [])
                                 mediaPaths (localDateStr (local_time rt scheduledDate)) of
                            Inl e \<Rightarrow> (reject 500 ''Failed to schedule post'', srv)
                          | Inr d' \<Rightarrow>
                              (\<lparr>code = 201, body_success = True, body_error = None,
                                body_message = Some ''Post scheduled successfully'',
                                body_post = findById d' postId'\<rparr>,
                               srv\<lparr>database := d'\<rparr>)))))))"

definition post_scheduled ::
  "runtime \<Rightarrow> schedule_request \<Rightarrow> server \<Rightarrow> http_response \<times> server" where
  "post_scheduled rt req srv =
     (if \<not> requireAuth (session_userId req) then (reject 401 ''Authentication required'', srv)
      else create_handler rt req (upload_array req srv))"

text \<open>
  The loop that deletes the media files of a cancelled post:
  \<open>if (fs.existsSync(filePath)) fs.unlinkSync(filePath)\<close> for each path.
\<close>

definition unlink_all :: "string list \<Rightarrow> string set \<Rightarrow> string set" where
  "unlink_all paths d = foldl (\<lambda>d' p. if p \<in> d' then d' - {p} else d') d paths"

text \<open>\<open>DELETE /api/scheduled/:id\<close>, with its \<open>requireAuth\<close> middleware.\<close>

definition delete_scheduled :: "string option \<Rightarrow> string \<Rightarrow> server \<Rightarrow> http_response \<times> server" where
  "delete_scheduled session ident srv =
     (if \<not> requireAuth session then (reject 401 ''Authentication required'', srv)
      else
        case findById (database srv) ident of
          None \<Rightarrow> (reject 404 ''Scheduled post not found'', srv)
        | Some post \<Rightarrow>
            if Some (user_id post) \<noteq> session
            then (reject 403 ''Not authorized to delete this post'', srv)
            else if status post \<noteq> ''pending''
            then (reject 400 (''Cannot cancel post with status: '' @ status post), srv)
            else
              (\<lparr>code = 200, body_success = True, body_error = None,
                body_message = Some ''Scheduled post cancelled'', body_post = None\<rparr>,
               \<lparr>database = delete (database srv) ident,
                disk = unlink_all (media_paths post) (disk srv)\<rparr>))"

section \<open>Reading the journal\<close>





text \<open>
  What the world answers to the \<open>j\<close>-th status poll of a container: a status that
  lets the wait go on, or the status \<open>FINISHED\<close>.
\<close>

definition polled_pending :: "world \<Rightarrow> string \<Rightarrow> nat \<Rightarrow> bool" where
  "polled_pending w c j =
     (\<exists>data. graph_status w (GRAPH_API_URL @ ''/'' @ c) j = Inr data
        \<and> status_code data \<noteq> Some ''FINISHED'' \<and> status_code data \<noteq> Some ''ERROR'')"

definition polled_finished :: "world \<Rightarrow> string \<Rightarrow> nat \<Rightarrow> bool" where
  "polled_finished w c k =
     (\<exists>data. graph_status w (GRAPH_API_URL @ ''/'' @ c) k = Inr data
        \<and> status_code data = Some ''FINISHED'')"

section \<open>Sample worlds\<close>


definition sample_extname :: "string \<Rightarrow> string" where
  "sample_extname p =
     (if CHR ''.'' \<in> set p then CHR ''.'' # rev (takeWhile (\<lambda>c. c \<noteq> CHR ''.'') (rev p)) else [])"

definition sample_basename :: "string \<Rightarrow> string" where
  "sample_basename p = rev (takeWhile (\<lambda>c. c \<noteq> CHR ''/'') (rev p))"


definition online :: world where
  "online =
     \<lparr>graph_post = (\<lambda>url body. Inr \<lparr>data_id = Some ''1001'', data_post_id = None\<rparr>),
      graph_status = (\<lambda>url i. Inr \<lparr>status_code = Some (if i < 2 then ''IN_PROGRESS'' else ''FINISHED''),
                                      status_text = None\<rparr>),
      bot_send = (\<lambda>method token chat paths cap. Inr (Message (Some 7))),
      statSync = (\<lambda>p. Inr 1024),
      tiktok_init_post = (\<lambda>token size.
         Inr \<lparr>init_error_code = None, init_error_message = None,
              init_data = Some (Some ''https://upload.example/v'', Some ''pub-1'')\<rparr>),
      tiktok_put = (\<lambda>url p size. Inr ()),
      settings_getAllForUser = (\<lambda>u.
         Inr [(''facebook'', [(''page_id'', ''42''), (''access_token'', ''tok'')])]),
      path_extname = sample_extname,
      path_basename = sample_basename\<rparr>"

definition photo :: media_file where
  "photo = \<lparr>path = ''/uploads/a.jpg'', mimetype = ''image/jpeg'', originalname = ''a.jpg''\<rparr>"

definition video :: media_file where
  "video = \<lparr>path = ''/uploads/v.mp4'', mimetype = ''video/mp4'', originalname = ''v.mp4''\<rparr>"

definition facebook_only :: "string \<rightharpoonup> string" where
  "facebook_only = [''facebook_page_id'' \<mapsto> ''42'', ''facebook_access_token'' \<mapsto> ''tok'']"


definition no_settings :: "string \<rightharpoonup> string" where
  "no_settings = Map.empty"

definition sample_row :: "string \<Rightarrow> string list \<Rightarrow> string \<Rightarrow> string \<Rightarrow> scheduled_post" where
  "sample_row ident plats at st =
     \<lparr>post_id = ident, user_id = ''u1'', post_platforms = plats,
      post_caption = ''hi'', media_paths = [''/uploads/scheduled/u1/'' @ ident @ ''.jpg''],
      scheduled_at = at, status = st, result = None\<rparr>"

definition sample_db :: db where
  "sample_db =
     \<lparr>rows = [sample_row ''p1'' [''facebook''] ''2026-11-03 10:00:01'' ''pending'',
              sample_row ''p2'' [''facebook'', ''unknownplat''] ''2026-11-03 10:00:00'' ''pending'',
              sample_row ''p3'' [''facebook''] ''2026-11-03 09:00:00'' ''completed'',
              sample_row ''p4'' [''facebook''] ''2026-11-03 09:30:00'' ''pending'',
              sample_row ''p5'' [''facebook''] ''2026-11-03 09:45:00'' ''processing''],
      journal = []\<rparr>"

definition sample_server :: server where
  "sample_server =
     \<lparr>database = sample_db, disk = set (concat (map media_paths (rows sample_db)))\<rparr>"

definition sample_runtime :: runtime where
  "sample_runtime =
     \<lparr>now_ms = 1793700000000,
      Date_parse = (\<lambda>s. if s = ''2020-01-01T00:00'' then Some 1577836800000
                          else if s = ''2030-01-01T00:00'' then Some 1893456000000
                          else None),
      local_time = (\<lambda>t. \<lparr>fullYear = 2030, month = 0, date = 1, hours = 0, minutes = 0,
                            seconds = 0\<rparr>),
      JSON_parse = (\<lambda>s. Inl (Error ''Unexpected token'')),
      uuidv4 = ''p6''\<rparr>"

definition sample_request :: "string \<Rightarrow> schedule_request" where
  "sample_request at =
     \<lparr>session_userId = Some ''u1'',
      body_platforms = Some (PlatformsArray [''facebook'']),
      body_caption = Some ''hi'',
      body_scheduledAt = Some at,
      req_files = [\<lparr>path = ''/uploads/scheduled/u1/1-b.jpg'', mimetype = ''image/jpeg'',
                     originalname = ''b.jpg''\<rparr>]\<rparr>"




section \<open>Properties of asynchronous code\<close>

lemma fst_await: "fst (await m f) = (case fst m of Inl e \<Rightarrow> Inl e | Inr v \<Rightarrow> fst (f v))"
  by (auto simp: await_def split: prod.splits sum.splits)

lemma snd_await:
  "snd (await m f) = (case fst m of Inl e \<Rightarrow> snd m | Inr v \<Rightarrow> snd m @ snd (f v))"
  by (auto simp: await_def split: prod.splits sum.splits)

lemma fst_try_catch:
  "fst (try_catch b h) = (case fst b of Inl e \<Rightarrow> fst (h e) | Inr v \<Rightarrow> Inr v)"
  by (auto simp: try_catch_def split: prod.splits sum.splits)

lemma snd_try_catch:
  "snd (try_catch b h) = (case fst b of Inl e \<Rightarrow> snd b @ snd (h e) | Inr v \<Rightarrow> snd b)"
  by (auto simp: try_catch_def split: prod.splits sum.splits)

lemma fst_resolve: "fst (resolve v) = Inr v"
  by (simp add: resolve_def)

lemma snd_resolve: "snd (resolve v) = []"
  by (simp add: resolve_def)

lemma fst_throw: "fst (throw e) = Inl e"
  by (simp add: throw_def)

lemma snd_throw: "snd (throw e) = []"
  by (simp add: throw_def)

lemma fst_request: "fst (request ev a) = a"
  by (simp add: request_def)

lemma snd_request: "snd (request ev a) = [ev]"
  by (simp add: request_def)

lemmas async_simps = fst_await snd_await fst_try_catch snd_try_catch fst_resolve snd_resolve
  fst_throw snd_throw fst_request snd_request

section \<open>The adapters and the dispatcher\<close>

text \<open>Each adapter fulfils, whatever the world answers, and tags its result with its name.\<close>

lemma postToFacebook_settles:
  "\<exists>r. fst (postToFacebook w fs cap mt us) = Inr r \<and> platform r = ''facebook''"
  by (auto simp: postToFacebook_def async_simps failure_def Let_def split: sum.splits)

lemma postToTelegram_settles:
  "\<exists>r. fst (postToTelegram w fs cap mt us) = Inr r \<and> platform r = ''telegram''"
  by (auto simp: postToTelegram_def async_simps failure_def Let_def split: sum.splits)

lemma postToTikTok_settles:
  "\<exists>r. fst (postToTikTok w fs cap mt us) = Inr r \<and> platform r = ''tiktok''"
  by (auto simp: postToTikTok_def async_simps failure_def Let_def split: sum.splits)

declare toLowerCase.simps [simp del]

lemma lower_names:
  "toLowerCase ''facebook'' = ''facebook''" "toLowerCase ''telegram'' = ''telegram''"
  "toLowerCase ''tiktok'' = ''tiktok''" "toLowerCase ''instagram'' = ''instagram''"
  "toLowerCase ''youtube'' = ''youtube''"
  by code_simp+

text \<open>
  A name spelt with the Kelvin sign for its \<open>K\<close> is a known name: JavaScript lower-cases
  it to \<open>tiktok\<close>, and so does the model.
\<close>

lemma kelvin_sign_name_is_tiktok:
  "toLowerCase (''TI'' @ KELVIN_SIGN @ ''TOK'') = ''tiktok''"
  "toLowerCase (''Ti'' @ CAPITAL_I_WITH_DOT_ABOVE @ ''ktok'') \<noteq> ''tiiktok''"
  by code_simp+

lemma postingPromise_settles:
  "\<exists>r. fst (postingPromise w fs cap mt us p) = Inr r
       \<and> toLowerCase (platform r) = toLowerCase p"
proof -
  consider "toLowerCase p = ''facebook''" | "toLowerCase p = ''telegram''"
    | "toLowerCase p = ''tiktok''" | "toLowerCase p = ''instagram''"
    | "toLowerCase p = ''youtube''"
    | "toLowerCase p \<notin> {''facebook'', ''telegram'', ''tiktok'', ''instagram'', ''youtube''}"
    by auto
  then show ?thesis
  proof cases
    case 1
    with postToFacebook_settles [of w fs cap mt us] show ?thesis
      by (auto simp: postingPromise_def lower_names)
  next
    case 2
    with postToTelegram_settles [of w fs cap mt us] show ?thesis
      by (auto simp: postingPromise_def lower_names)
  next
    case 3
    with postToTikTok_settles [of w fs cap mt us] show ?thesis
      by (auto simp: postingPromise_def lower_names)
  next
    case 4
    then show ?thesis
      by (simp add: postingPromise_def lower_names fst_resolve failure_def)
  next
    case 5
    then show ?thesis
      by (simp add: postingPromise_def lower_names fst_resolve failure_def)
  next
    case 6
    then show ?thesis
      by (simp add: postingPromise_def fst_resolve failure_def)
  qed
qed

lemma collect_map: "collect ps (map g ps) = map (\<lambda>p. settle p (g p)) ps"
  by (induction ps) auto

lemma postToAllPlatforms_Cons:
  "files opts = f # rest \<Longrightarrow>
   fst (postToAllPlatforms w opts) =
     Inr (map (\<lambda>p. settle p (fst (postingPromise w (files opts) (caption opts)
                                     (mediaTypeOf (mimetype f)) (userSettings opts) p)))
            (platforms opts))"
  by (simp add: postToAllPlatforms_def Let_def collect_map comp_def)

lemma snd_postToAllPlatforms_Cons:
  "files opts = f # rest \<Longrightarrow>
   snd (postToAllPlatforms w opts) =
     concat (map (\<lambda>p. snd (postingPromise w (files opts) (caption opts)
                               (mediaTypeOf (mimetype f)) (userSettings opts) p))
               (platforms opts))"
  by (simp add: postToAllPlatforms_def Let_def comp_def)

text \<open>
  Claim C1. For every platform list and every non-empty media list, the dispatcher
  returns (does not throw) a list with exactly one entry per requested platform, and the
  entry at position \<open>i\<close> is the settled outcome of the adapter invocation for the
  \<open>i\<close>-th requested name, tagged with that name up to letter case. The order is the
  order of the request: it is fixed by the position of each promise, not by when the
  promise settles.
\<close>

theorem dispatch_one_result_per_platform_in_order:
  assumes "files opts = f # rest"
  shows "\<exists>rs. fst (postToAllPlatforms w opts) = Inr rs
           \<and> length rs = length (platforms opts)
           \<and> (\<forall>i < length (platforms opts).
                 rs ! i = settle (platforms opts ! i)
                            (fst (postingPromise w (files opts) (caption opts)
                                    (mediaTypeOf (mimetype f)) (userSettings opts)
                                    (platforms opts ! i)))
                 \<and> toLowerCase (platform (rs ! i)) = toLowerCase (platforms opts ! i))"
proof -
  let ?slot = "\<lambda>p. settle p (fst (postingPromise w (files opts) (caption opts)
                                     (mediaTypeOf (mimetype f)) (userSettings opts) p))"
  have tag: "toLowerCase (platform (?slot p)) = toLowerCase p" for p
    using postingPromise_settles [of w "files opts" "caption opts" "mediaTypeOf (mimetype f)"
        "userSettings opts" p]
    by (auto simp: settle_def)
  show ?thesis
    using assms tag by (simp add: postToAllPlatforms_Cons)
qed

theorem dispatch_one_result_per_platform_in_order_witness:
  "files \<lparr>platforms = [''Facebook'', ''unknownplat''], files = [photo], caption = ''hi'',
          userSettings = facebook_only\<rparr> = photo # []
   \<and> (\<exists>rs. fst (postToAllPlatforms online
                  \<lparr>platforms = [''Facebook'', ''unknownplat''], files = [photo],
                   caption = ''hi'', userSettings = facebook_only\<rparr>) = Inr rs
          \<and> length rs = 2
          \<and> toLowerCase (platform (rs ! 0)) = toLowerCase ''Facebook''
          \<and> toLowerCase (platform (rs ! 1)) = toLowerCase ''unknownplat'')"
proof -
  let ?opts = "\<lparr>platforms = [''Facebook'', ''unknownplat''], files = [photo],
                 caption = ''hi'', userSettings = facebook_only\<rparr>"
  have h: "files ?opts = photo # []"
    by simp
  from dispatch_one_result_per_platform_in_order [OF h, of online]
  obtain rs where rs: "fst (postToAllPlatforms online ?opts) = Inr rs"
    "length rs = length (platforms ?opts)"
    "\<forall>i < length (platforms ?opts).
       toLowerCase (platform (rs ! i)) = toLowerCase (platforms ?opts ! i)"
    by blast
  from rs(3) have "toLowerCase (platform (rs ! 0)) = toLowerCase ''Facebook''"
    "toLowerCase (platform (rs ! 1)) = toLowerCase ''unknownplat''"
    by simp_all
  with h rs(1,2) show ?thesis
    by simp
qed

lemma configured_facebook:
  "configured us ''facebook'' = (truthy (us ''facebook_page_id'') \<and> truthy (us ''facebook_access_token''))"
  by (simp add: configured_def platformFields_def)

lemma configured_telegram:
  "configured us ''telegram'' = (truthy (us ''telegram_bot_token'') \<and> truthy (us ''telegram_chat_id''))"
  by (simp add: configured_def platformFields_def)

lemma configured_tiktok:
  "configured us ''tiktok'' = (truthy (us ''tiktok_access_token'') \<and> truthy (us ''tiktok_open_id''))"
  by (simp add: configured_def platformFields_def)

lemma facebook_unconfigured:
  "\<not> configured us ''facebook'' \<Longrightarrow>
   postToFacebook w fs cap mt us =
     (Inr (failure ''facebook'' (Some ''Facebook credentials not configured'')), [])"
  by (auto simp: configured_facebook postToFacebook_def try_catch_def throw_def resolve_def
      Error_def or_opt_def truthy_def Let_def)

lemma telegram_unconfigured:
  "\<not> configured us ''telegram'' \<Longrightarrow>
   postToTelegram w fs cap mt us =
     (Inr (failure ''telegram'' (Some ''Telegram credentials not configured'')), [])"
  by (auto simp: configured_telegram postToTelegram_def try_catch_def throw_def resolve_def
      Error_def  Let_def)

lemma tiktok_unconfigured:
  "\<not> configured us ''tiktok'' \<Longrightarrow>
   postToTikTok w (f # rest) cap ''video'' us =
     (Inr (failure ''tiktok'' (Some ''TikTok credentials not configured'')), [])"
  by (auto simp: configured_tiktok postToTikTok_def tt_postVideo_def first_path_def await_def
      try_catch_def throw_def resolve_def Error_def or_opt_def truthy_def Let_def)

lemma tiktok_photo:
  "postToTikTok w fs cap ''photo'' us =
     (Inr (failure ''tiktok'' (Some ''TikTok only supports video uploads'')), [])"
  by (simp add: postToTikTok_def try_catch_def resolve_def)


lemma str_includes_prefix: "str_includes (p @ s) p"
proof (cases "p @ s")
  case Nil
  then show ?thesis by simp
next
  case (Cons c cs)
  have "startsWith (p @ s) p"
    by (simp add: startsWith_def)
  with Cons show ?thesis
    by simp
qed

lemma postingPromise_unknown:
  "toLowerCase p \<notin> {''facebook'', ''telegram'', ''tiktok'', ''instagram'', ''youtube''} \<Longrightarrow>
   postingPromise w fs cap mt us p = (Inr (failure p (Some (''Unknown platform: '' @ p))), [])"
  by (simp add: postingPromise_def resolve_def)

text \<open>
  Claim C3. In a request with a non-empty media list, a platform name that is none of the
  five known names once lower-cased gets, in its own slot, the failure result whose error
  is \<open>Unknown platform: \<close> followed by the name as requested. The dispatcher returns
  (does not throw); every other slot holds the settled outcome of its own adapter
  invocation, and stays the same whatever name stands in the unknown slot.
\<close>

theorem unknown_platform_fails_its_slot_only:
  assumes "files opts = f # rest" and "i < length (platforms opts)"
    and "toLowerCase (platforms opts ! i)
           \<notin> {''facebook'', ''telegram'', ''tiktok'', ''instagram'', ''youtube''}"
  shows "\<exists>rs. fst (postToAllPlatforms w opts) = Inr rs
           \<and> rs ! i = failure (platforms opts ! i)
                        (Some (''Unknown platform: '' @ platforms opts ! i))
           \<and> \<not> success (rs ! i)
           \<and> str_includes (''Unknown platform: '' @ platforms opts ! i) ''Unknown platform''
           \<and> (\<forall>j < length (platforms opts). j \<noteq> i \<longrightarrow>
                 rs ! j = settle (platforms opts ! j)
                            (fst (postingPromise w (files opts) (caption opts)
                                    (mediaTypeOf (mimetype f)) (userSettings opts)
                                    (platforms opts ! j))))
           \<and> (\<forall>q. \<exists>rs'. fst (postToAllPlatforms w
                                  (opts\<lparr>platforms := (platforms opts)[i := q]\<rparr>)) = Inr rs'
                  \<and> (\<forall>j < length (platforms opts). j \<noteq> i \<longrightarrow> rs' ! j = rs ! j))"
proof -
  let ?slot = "\<lambda>p. settle p (fst (postingPromise w (files opts) (caption opts)
                                     (mediaTypeOf (mimetype f)) (userSettings opts) p))"
  let ?rs = "map ?slot (platforms opts)"
  have run: "fst (postToAllPlatforms w opts) = Inr ?rs"
    using assms(1) by (rule postToAllPlatforms_Cons)
  have slot_i: "?rs ! i = failure (platforms opts ! i)
                            (Some (''Unknown platform: '' @ platforms opts ! i))"
    using assms(2,3) by (simp add: postingPromise_unknown settle_def)
  have inc: "str_includes (''Unknown platform: '' @ platforms opts ! i) ''Unknown platform''"
    using str_includes_prefix [of "''Unknown platform''" "'': '' @ platforms opts ! i"]
    by simp
  have other: "\<exists>rs'. fst (postToAllPlatforms w (opts\<lparr>platforms := (platforms opts)[i := q]\<rparr>))
                        = Inr rs'
                 \<and> (\<forall>j < length (platforms opts). j \<noteq> i \<longrightarrow> rs' ! j = ?rs ! j)" for q
  proof -
    have "files (opts\<lparr>platforms := (platforms opts)[i := q]\<rparr>) = f # rest"
      using assms(1) by simp
    from postToAllPlatforms_Cons [OF this, of w]
    have "fst (postToAllPlatforms w (opts\<lparr>platforms := (platforms opts)[i := q]\<rparr>))
            = Inr (map ?slot ((platforms opts)[i := q]))"
      by simp
    then show ?thesis
      by simp
  qed
  from run slot_i inc other show ?thesis
    by (simp add: failure_def)
qed

theorem unknown_platform_fails_its_slot_only_witness:
  "files \<lparr>platforms = [''Facebook'', ''unknownplat''], files = [photo], caption = ''hi'',
          userSettings = facebook_only\<rparr> = photo # []
   \<and> (1::nat) < length (platforms \<lparr>platforms = [''Facebook'', ''unknownplat''],
          files = [photo], caption = ''hi'', userSettings = facebook_only\<rparr>)
   \<and> toLowerCase ''unknownplat''
        \<notin> {''facebook'', ''telegram'', ''tiktok'', ''instagram'', ''youtube''}
   \<and> (\<exists>rs. fst (postToAllPlatforms online
                   \<lparr>platforms = [''Facebook'', ''unknownplat''], files = [photo],
                    caption = ''hi'', userSettings = facebook_only\<rparr>) = Inr rs
          \<and> rs ! 1 = failure ''unknownplat'' (Some ''Unknown platform: unknownplat'')
          \<and> \<not> success (rs ! 1))"
proof -
  let ?opts = "\<lparr>platforms = [''Facebook'', ''unknownplat''], files = [photo],
                 caption = ''hi'', userSettings = facebook_only\<rparr>"
  have h1: "files ?opts = photo # []"
    by simp
  have h2: "(1::nat) < length (platforms ?opts)"
    by simp
  have low: "toLowerCase ''unknownplat''
        \<notin> {''facebook'', ''telegram'', ''tiktok'', ''instagram'', ''youtube''}"
    by code_simp
  then have h3: "toLowerCase (platforms ?opts ! 1)
        \<notin> {''facebook'', ''telegram'', ''tiktok'', ''instagram'', ''youtube''}"
    by simp
  from unknown_platform_fails_its_slot_only [OF h1 h2 h3, of online]
  obtain rs where "fst (postToAllPlatforms online ?opts) = Inr rs"
    "rs ! 1 = failure (platforms ?opts ! 1) (Some (''Unknown platform: '' @ platforms ?opts ! 1))"
    "\<not> success (rs ! 1)"
    by blast
  with h1 h2 low show ?thesis
    by simp
qed











lemma str_includes_suffix: "str_includes (p @ s) s"
proof (induction p)
  case Nil
  show ?case
    using str_includes_prefix [of s "[]"] by simp
next
  case (Cons c p)
  then show ?case
    by simp
qed

lemma postingPromise_unconfigured:
  assumes "\<not> configured us (toLowerCase p)"
    and "toLowerCase p = ''facebook'' \<and> label = ''Facebook''
         \<or> toLowerCase p = ''telegram'' \<and> label = ''Telegram''
         \<or> toLowerCase p = ''tiktok'' \<and> label = ''TikTok'' \<and> isVideo (mimetype f)"
  shows "postingPromise w (f # rest) cap (mediaTypeOf (mimetype f)) us p =
           (Inr (failure (toLowerCase p) (Some (label @ '' credentials not configured''))), [])"
  using assms
  by (auto simp: postingPromise_def facebook_unconfigured telegram_unconfigured
      tiktok_unconfigured mediaTypeOf_def)

text \<open>
  Claim C4 fails as stated: TikTok checks the media kind before the credentials, so a photo
  batch with no TikTok credentials gets the media-kind message, not a credentials message.
\<close>

theorem tiktok_photo_without_credentials_counterexample:
  "\<not> configured no_settings ''tiktok''
   \<and> postToAllPlatforms online
         \<lparr>platforms = [''tiktok''], files = [photo], caption = ''hi'',
          userSettings = no_settings\<rparr>
       = (Inr [failure ''tiktok'' (Some ''TikTok only supports video uploads'')], [])
   \<and> \<not> str_includes ''TikTok only supports video uploads'' ''credentials not configured''"
  by code_simp

text \<open>
  Claim C4, amended. In a request with a non-empty media list, let the platform at
  position \<open>i\<close> be Facebook or Telegram, or TikTok when the media kind is video, and let
  one of its required credential fields be missing or empty. Then its adapter invocation
  fulfils with the failure \<open><Platform> credentials not configured\<close> and has sent nothing;
  that failure is the result in slot \<open>i\<close>; every other slot holds the settled outcome
  of its own adapter invocation, and stays the same whatever name stands in slot \<open>i\<close>.
\<close>

theorem unconfigured_platform_fails_fast:
  assumes "files opts = f # rest" and "i < length (platforms opts)"
    and "name = toLowerCase (platforms opts ! i)"
    and "\<not> configured (userSettings opts) name"
    and "name = ''facebook'' \<and> label = ''Facebook''
         \<or> name = ''telegram'' \<and> label = ''Telegram''
         \<or> name = ''tiktok'' \<and> label = ''TikTok'' \<and> isVideo (mimetype f)"
  shows "postingPromise w (files opts) (caption opts) (mediaTypeOf (mimetype f))
           (userSettings opts) (platforms opts ! i)
         = (Inr (failure name (Some (label @ '' credentials not configured''))), [])
       \<and> str_includes (label @ '' credentials not configured'') ''credentials not configured''
       \<and> (\<exists>rs. fst (postToAllPlatforms w opts) = Inr rs
              \<and> rs ! i = failure name (Some (label @ '' credentials not configured''))
              \<and> \<not> success (rs ! i)
              \<and> (\<forall>j < length (platforms opts). j \<noteq> i \<longrightarrow>
                    rs ! j = settle (platforms opts ! j)
                               (fst (postingPromise w (files opts) (caption opts)
                                       (mediaTypeOf (mimetype f)) (userSettings opts)
                                       (platforms opts ! j))))
              \<and> (\<forall>q. \<exists>rs'. fst (postToAllPlatforms w
                                     (opts\<lparr>platforms := (platforms opts)[i := q]\<rparr>)) = Inr rs'
                     \<and> (\<forall>j < length (platforms opts). j \<noteq> i \<longrightarrow> rs' ! j = rs ! j)))"
proof -
  let ?slot = "\<lambda>p. settle p (fst (postingPromise w (files opts) (caption opts)
                                     (mediaTypeOf (mimetype f)) (userSettings opts) p))"
  let ?rs = "map ?slot (platforms opts)"
  have fast: "postingPromise w (files opts) (caption opts) (mediaTypeOf (mimetype f))
           (userSettings opts) (platforms opts ! i)
         = (Inr (failure name (Some (label @ '' credentials not configured''))), [])"
    using postingPromise_unconfigured [of "userSettings opts" "platforms opts ! i" label f w rest
        "caption opts"] assms
    by simp
  have inc: "str_includes (label @ '' credentials not configured'') ''credentials not configured''"
    using str_includes_suffix [of "label @ '' ''" "''credentials not configured''"]
    by simp
  have run: "fst (postToAllPlatforms w opts) = Inr ?rs"
    using assms(1) by (rule postToAllPlatforms_Cons)
  have slot_i: "?rs ! i = failure name (Some (label @ '' credentials not configured''))"
    using assms(2) fast by (simp add: settle_def)
  have other: "\<exists>rs'. fst (postToAllPlatforms w (opts\<lparr>platforms := (platforms opts)[i := q]\<rparr>))
                        = Inr rs'
                 \<and> (\<forall>j < length (platforms opts). j \<noteq> i \<longrightarrow> rs' ! j = ?rs ! j)" for q
  proof -
    have "files (opts\<lparr>platforms := (platforms opts)[i := q]\<rparr>) = f # rest"
      using assms(1) by simp
    from postToAllPlatforms_Cons [OF this, of w]
    have "fst (postToAllPlatforms w (opts\<lparr>platforms := (platforms opts)[i := q]\<rparr>))
            = Inr (map ?slot ((platforms opts)[i := q]))"
      by simp
    then show ?thesis
      by simp
  qed
  from fast inc run slot_i other show ?thesis
    by (simp add: failure_def)
qed

theorem unconfigured_platform_fails_fast_witness:
  "files \<lparr>platforms = [''facebook'', ''Telegram''], files = [photo], caption = ''hi'',
          userSettings = facebook_only\<rparr> = photo # []
   \<and> (1::nat) < length (platforms \<lparr>platforms = [''facebook'', ''Telegram''],
          files = [photo], caption = ''hi'', userSettings = facebook_only\<rparr>)
   \<and> ''telegram'' = toLowerCase ''Telegram''
   \<and> \<not> configured facebook_only ''telegram''
   \<and> postingPromise online [photo] ''hi'' (mediaTypeOf (mimetype photo)) facebook_only
        ''Telegram''
       = (Inr (failure ''telegram'' (Some ''Telegram credentials not configured'')), [])
   \<and> (\<exists>rs. fst (postToAllPlatforms online
                   \<lparr>platforms = [''facebook'', ''Telegram''], files = [photo],
                    caption = ''hi'', userSettings = facebook_only\<rparr>) = Inr rs
          \<and> rs ! 1 = failure ''telegram'' (Some ''Telegram credentials not configured'')
          \<and> success (rs ! 0))"
proof -
  let ?opts = "\<lparr>platforms = [''facebook'', ''Telegram''], files = [photo],
                 caption = ''hi'', userSettings = facebook_only\<rparr>"
  have h1: "files ?opts = photo # []"
    by simp
  have h2: "(1::nat) < length (platforms ?opts)"
    by simp
  have low: "''telegram'' = toLowerCase ''Telegram''"
    by code_simp
  then have h3: "''telegram'' = toLowerCase (platforms ?opts ! 1)"
    by simp
  have unc: "\<not> configured facebook_only ''telegram''"
    by (simp add: configured_telegram facebook_only_def truthy_def)
  then have h4: "\<not> configured (userSettings ?opts) ''telegram''"
    by simp
  have h5: "''telegram'' = ''facebook'' \<and> ''Telegram'' = ''Facebook''
         \<or> ''telegram'' = ''telegram'' \<and> ''Telegram'' = ''Telegram''
         \<or> ''telegram'' = ''tiktok'' \<and> ''Telegram'' = ''TikTok'' \<and> isVideo (mimetype photo)"
    by simp
  from unconfigured_platform_fails_fast [OF h1 h2 h3 h4 h5, of online]
  have fast: "postingPromise online (files ?opts) (caption ?opts) (mediaTypeOf (mimetype photo))
           (userSettings ?opts) (platforms ?opts ! 1)
         = (Inr (failure ''telegram'' (Some (''Telegram'' @ '' credentials not configured''))), [])"
    and "\<exists>rs. fst (postToAllPlatforms online ?opts) = Inr rs
              \<and> rs ! 1 = failure ''telegram'' (Some (''Telegram'' @ '' credentials not configured''))"
    by blast+
  then obtain rs where rs: "fst (postToAllPlatforms online ?opts) = Inr rs"
    "rs ! 1 = failure ''telegram'' (Some (''Telegram'' @ '' credentials not configured''))"
    by blast
  have "fst (postToAllPlatforms online ?opts)
          = Inr [\<lparr>success = True, platform = ''facebook'', postId = Some ''1001'',
                  messageId = None, publishId = None,
                  message = Some ''Successfully posted to Facebook'', error = None\<rparr>,
                 failure ''telegram'' (Some ''Telegram credentials not configured'')]"
    by code_simp
  with rs(1) have "success (rs ! 0)"
    by auto
  with h1 h2 low unc fast rs show ?thesis
    by simp
qed

text \<open>
  Claim C10. Called with an empty media list the dispatcher throws, reading the MIME type
  of a first item that is not there, before any per-platform work (nothing has been
  sent). With a first item, the media kind handed to every adapter is \<open>video\<close> when its
  MIME type starts with \<open>video/\<close> and \<open>photo\<close> for every other MIME type.
\<close>

theorem empty_media_list_throws:
  "(files opts = [] \<longrightarrow> (\<exists>e. postToAllPlatforms w opts = (Inl e, [])))
   \<and> (\<forall>f rest. files opts = f # rest \<longrightarrow>
         fst (postToAllPlatforms w opts) =
           Inr (map (\<lambda>p. settle p (fst (postingPromise w (files opts) (caption opts)
                      (if startsWith (mimetype f) ''video/'' then ''video'' else ''photo'')
                      (userSettings opts) p)))
                  (platforms opts)))"
proof -
  have "files opts = [] \<Longrightarrow> \<exists>e. postToAllPlatforms w opts = (Inl e, [])"
    by (simp add: postToAllPlatforms_def throw_def)
  moreover have "files opts = f # rest \<Longrightarrow>
      fst (postToAllPlatforms w opts) =
        Inr (map (\<lambda>p. settle p (fst (postingPromise w (files opts) (caption opts)
                   (if startsWith (mimetype f) ''video/'' then ''video'' else ''photo'')
                   (userSettings opts) p)))
               (platforms opts))" for f rest
    using postToAllPlatforms_Cons [of opts f rest w]
    by (simp add: mediaTypeOf_def isVideo_def)
  ultimately show ?thesis
    by blast
qed

theorem empty_media_list_throws_witness:
  "files \<lparr>platforms = [''facebook''], files = [], caption = ''hi'',
          userSettings = facebook_only\<rparr> = []
   \<and> (\<exists>e. postToAllPlatforms online
              \<lparr>platforms = [''facebook''], files = [], caption = ''hi'',
               userSettings = facebook_only\<rparr> = (Inl e, []))
   \<and> fst (postToAllPlatforms online
            \<lparr>platforms = [''tiktok''],
             files = [\<lparr>path = ''/uploads/a.pdf'', mimetype = ''application/pdf'',
                       originalname = ''a.pdf''\<rparr>],
             caption = ''hi'', userSettings = facebook_only\<rparr>)
       = Inr [failure ''tiktok'' (Some ''TikTok only supports video uploads'')]"
proof -
  let ?none = "\<lparr>platforms = [''facebook''], files = [], caption = ''hi'',
                 userSettings = facebook_only\<rparr>"
  let ?pdf = "\<lparr>path = ''/uploads/a.pdf'', mimetype = ''application/pdf'',
                originalname = ''a.pdf''\<rparr>"
  let ?opts = "\<lparr>platforms = [''tiktok''], files = [?pdf], caption = ''hi'',
                 userSettings = facebook_only\<rparr>"
  have a: "files ?none = []"
    by simp
  from empty_media_list_throws [of ?none online] a
  have b: "\<exists>e. postToAllPlatforms online ?none = (Inl e, [])"
    by blast
  have "files ?opts = ?pdf # []"
    by simp
  with empty_media_list_throws [of ?opts online]
  have "fst (postToAllPlatforms online ?opts) =
          Inr (map (\<lambda>p. settle p (fst (postingPromise online (files ?opts) (caption ?opts)
                     (if startsWith (mimetype ?pdf) ''video/'' then ''video'' else ''photo'')
                     (userSettings ?opts) p)))
                 (platforms ?opts))"
    by blast
  also have "\<dots> = Inr [failure ''tiktok'' (Some ''TikTok only supports video uploads'')]"
    by code_simp
  finally show ?thesis
    using a b by simp
qed

section \<open>The scheduled-intent store\<close>




text \<open>
  The text the create route stores: for four-digit years it is ordered, as text, the way
  the instants are ordered in time.
\<close>

declare String_nat.simps [simp del]

lemma div_mod_less:
  fixes a b :: nat
  assumes "a < b"
  shows "a div 10 < b div 10 \<or> a div 10 = b div 10 \<and> a mod 10 < b mod 10"
proof (cases "a div 10 = b div 10")
  case True
  from assms have "10 * (a div 10) + a mod 10 < 10 * (b div 10) + b mod 10"
    by simp
  then have "10 * (b div 10) + a mod 10 < 10 * (b div 10) + b mod 10"
    by (simp only: True)
  then have "a mod 10 < b mod 10"
    by (simp only: nat_add_left_cancel_less)
  with True show ?thesis
    by blast
next
  case False
  from assms have "a div 10 \<le> b div 10"
    by (simp add: div_le_mono)
  with False show ?thesis
    by simp
qed

lemma digit_mono:
  assumes "k < l" and "l < 10"
  shows "digit k < digit l"
proof -
  have "list_all (\<lambda>l. list_all (\<lambda>k. digit k < digit l) [0..<l]) [0..<10]"
    by code_simp
  with assms show ?thesis
    by (simp add: list_all_iff)
qed

lemma two_digits:
  assumes "n < 100"
  shows "padStart2 (String_nat n) = [digit (n div 10), digit (n mod 10)]"
proof -
  have "list_all (\<lambda>n. padStart2 (String_nat n) = [digit (n div 10), digit (n mod 10)]) [0..<100]"
    by code_simp
  with assms show ?thesis
    by (simp add: list_all_iff)
qed

lemma String_nat_small: "n < 10 \<Longrightarrow> String_nat n = [digit n]"
  by (subst String_nat.simps) simp

lemma String_nat_large:
  "\<not> n < 10 \<Longrightarrow> String_nat n = String_nat (n div 10) @ [digit (n mod 10)]"
  by (subst String_nat.simps) simp

lemma String_nat_nonempty: "String_nat n \<noteq> []"
  by (subst String_nat.simps) simp

lemma length_String_nat_one: "length (String_nat n) = 1 \<longleftrightarrow> n < 10"
proof (cases "n < 10")
  case True
  then show ?thesis
    by (simp add: String_nat_small)
next
  case False
  have "length (String_nat (n div 10)) \<noteq> 0"
    using String_nat_nonempty [of "n div 10"] by simp
  with False show ?thesis
    by (simp add: String_nat_large)
qed

lemma append_less_same_length:
  "length xs = length ys \<Longrightarrow>
   (xs @ u < ys @ v \<longleftrightarrow> xs < ys \<or> xs = ys \<and> u < v)" for xs :: "char list"
  by (induction xs ys rule: list_induct2) auto

lemma String_nat_mono:
  "length (String_nat a) = length (String_nat b) \<Longrightarrow> a < b \<Longrightarrow> String_nat a < String_nat b"
proof (induction a arbitrary: b rule: String_nat.induct)
  case (1 a)
  show ?case
  proof (cases "a < 10")
    case True
    with "1.prems" have "b < 10"
      using length_String_nat_one [of a] length_String_nat_one [of b] by simp
    with True "1.prems" show ?thesis
      by (simp add: String_nat_small digit_mono)
  next
    case False
    with "1.prems" have b: "\<not> b < 10"
      by simp
    from "1.prems"(1) False b
    have len: "length (String_nat (a div 10)) = length (String_nat (b div 10))"
      by (simp add: String_nat_large)
    from "1.prems"(2) have "a div 10 < b div 10 \<or> a div 10 = b div 10 \<and> a mod 10 < b mod 10"
      by (rule div_mod_less)
    then show ?thesis
    proof
      assume "a div 10 < b div 10"
      from "1.IH" [OF False len this] len False b show ?thesis
        by (simp add: String_nat_large append_less_same_length)
    next
      assume eq: "a div 10 = b div 10 \<and> a mod 10 < b mod 10"
      then have "digit (a mod 10) < digit (b mod 10)"
        by (simp add: digit_mono)
      with eq False b show ?thesis
        by (simp add: String_nat_large append_less_same_length)
    qed
  qed
qed

lemma four_digits: "1000 \<le> n \<Longrightarrow> n \<le> 9999 \<Longrightarrow> length (String_nat n) = 4"
proof -
  assume a: "1000 \<le> n" "n \<le> 9999"
  then have "\<not> n < 10" "\<not> n div 10 < 10" "\<not> n div 10 div 10 < 10" "n div 10 div 10 div 10 < 10"
    by simp_all
  then show ?thesis
    by (simp add: String_nat_large String_nat_small)
qed

lemma pad2_mono: "a < b \<Longrightarrow> b < 100 \<Longrightarrow> padStart2 (String_nat a) < padStart2 (String_nat b)"
proof -
  assume a: "a < b" "b < 100"
  then have "a div 10 < b div 10 \<or> a div 10 = b div 10 \<and> a mod 10 < b mod 10"
    by (simp add: div_mod_less)
  moreover from a have "b div 10 < 10" "b mod 10 < 10"
    by simp_all
  moreover from a have "padStart2 (String_nat a) = [digit (a div 10), digit (a mod 10)]"
    "padStart2 (String_nat b) = [digit (b div 10), digit (b mod 10)]"
    by (simp_all add: two_digits)
  ultimately show ?thesis
    by (auto simp: digit_mono)
qed

lemma block_less:
  fixes a a' x x' :: string and n n' :: nat
  assumes "length a = length a'" and "n < n' \<Longrightarrow> a < a'" and "n = n' \<Longrightarrow> a = a'"
    and "n < n' \<or> n = n' \<and> x < x'"
  shows "a @ c # x < a' @ c # x'"
  using assms by (auto simp: append_less_same_length)

lemma localDateStr_mono:
  assumes "calendar_fields t" and "calendar_fields t'" and "earlier t t'"
  shows "localDateStr t < localDateStr t'"
proof -
  let ?P = "\<lambda>n. padStart2 (String_nat n)"
  from assms(1,2) have r: "month t + 1 < 100" "month t' + 1 < 100" "date t < 100" "date t' < 100"
    "hours t < 100" "hours t' < 100" "minutes t < 100" "minutes t' < 100"
    "seconds t < 100" "seconds t' < 100"
    by (simp_all add: calendar_fields_def)
  have lp: "length (?P a) = 2" if "a < 100" for a
    using that by (simp add: two_digits)
  from assms(1,2) have ly: "length (String_nat (fullYear t)) = length (String_nat (fullYear t'))"
    by (simp add: calendar_fields_def four_digits)
  let ?s = "seconds t < seconds t'"
  let ?mi = "minutes t < minutes t' \<or> minutes t = minutes t' \<and> ?s"
  let ?h = "hours t < hours t' \<or> hours t = hours t' \<and> ?mi"
  let ?d = "date t < date t' \<or> date t = date t' \<and> ?h"
  let ?m = "month t < month t' \<or> month t = month t' \<and> ?d"
  have s: "?P (seconds t) < ?P (seconds t')" if ?s
    using that r by (simp add: pad2_mono)
  have mi: "?P (minutes t) @ CHR '':'' # ?P (seconds t)
            < ?P (minutes t') @ CHR '':'' # ?P (seconds t')" if ?mi
    using that s r by (intro block_less [of _ _ "minutes t" "minutes t'"]) (auto simp: lp pad2_mono)
  have h: "?P (hours t) @ CHR '':'' # ?P (minutes t) @ CHR '':'' # ?P (seconds t)
            < ?P (hours t') @ CHR '':'' # ?P (minutes t') @ CHR '':'' # ?P (seconds t')" if ?h
    using that mi r by (intro block_less [of _ _ "hours t" "hours t'"]) (auto simp: lp pad2_mono)
  have d: "?P (date t) @ CHR '' '' # ?P (hours t) @ CHR '':'' # ?P (minutes t)
             @ CHR '':'' # ?P (seconds t)
            < ?P (date t') @ CHR '' '' # ?P (hours t') @ CHR '':'' # ?P (minutes t')
             @ CHR '':'' # ?P (seconds t')" if ?d
    using that h r by (intro block_less [of _ _ "date t" "date t'"]) (auto simp: lp pad2_mono)
  have m: "?P (month t + 1) @ CHR ''-'' # ?P (date t) @ CHR '' '' # ?P (hours t)
             @ CHR '':'' # ?P (minutes t) @ CHR '':'' # ?P (seconds t)
            < ?P (month t' + 1) @ CHR ''-'' # ?P (date t') @ CHR '' '' # ?P (hours t')
             @ CHR '':'' # ?P (minutes t') @ CHR '':'' # ?P (seconds t')" if ?m
    using that d r
    by (intro block_less [of _ _ "month t" "month t'"]) (auto simp: lp pad2_mono)
  have "String_nat (fullYear t) @ CHR ''-'' # ?P (month t + 1) @ CHR ''-'' # ?P (date t)
             @ CHR '' '' # ?P (hours t) @ CHR '':'' # ?P (minutes t) @ CHR '':'' # ?P (seconds t)
        < String_nat (fullYear t') @ CHR ''-'' # ?P (month t' + 1) @ CHR ''-'' # ?P (date t')
             @ CHR '' '' # ?P (hours t') @ CHR '':'' # ?P (minutes t')
             @ CHR '':'' # ?P (seconds t')"
    using assms(3) m ly String_nat_mono [OF ly]
    unfolding earlier_def
    by (intro block_less [of _ _ "fullYear t" "fullYear t'"]) auto
  then show ?thesis
    by (simp add: localDateStr_def)
qed

text \<open>
  So the byte-wise comparison SQLite makes on the stored text agrees with the order in
  time: an intent stored for a later local time than the one \<open>now\<close> is the text of, be it
  one second later, is not returned.
\<close>

lemma later_intent_not_due:
  assumes "calendar_fields t" and "calendar_fields t'" and "earlier t t'"
    and "now = localDateStr t" and "scheduled_at r = localDateStr t'"
  shows "r \<notin> set (getPending now d)"
  using localDateStr_mono [OF assms(1-3)] assms(4,5)
  by (auto simp: getPending_def)










section \<open>The scheduler loop\<close>














text \<open>
  \<open>processScheduledPost\<close> is its first write, the dispatch, and the record of the outcome.
\<close>

lemma processScheduledPost_phases:
  "processScheduledPost w d post =
     (recordOutcome (updateStatus d (post_id post) ''processing'' None) post
        (fst (dispatchPost w post)),
      snd (dispatchPost w post))"
  by (auto simp: processScheduledPost_def dispatchPost_def recordOutcome_def Let_def throw_def
      split: sum.splits prod.splits)




section \<open>The scheduling routes\<close>

lemma unlink_all_eq: "unlink_all paths d = d - set paths"
  unfolding unlink_all_def
  by (induction paths arbitrary: d) auto

lemma findById_delete: "findById (delete d ident) ident = None"
  by (simp add: findById_def delete_def find_None_iff)

lemma rows_delete: "rows (delete d ident) = filter (\<lambda>r. post_id r \<noteq> ident) (rows d)"
  by (simp add: delete_def)

text \<open>
  Claim C7 fails as stated for a requester who is not the owner: the ownership test comes
  before the status test, so cancelling someone else's \<open>processing\<close> intent is answered
  with the authorization error, not the status one.
\<close>

theorem cancel_by_non_owner_counterexample:
  "findById (database sample_server) ''p5''
     = Some (sample_row ''p5'' [''facebook''] ''2026-11-03 09:45:00'' ''processing'')
   \<and> delete_scheduled (Some ''u2'') ''p5'' sample_server
       = (reject 403 ''Not authorized to delete this post'', sample_server)
   \<and> reject 403 ''Not authorized to delete this post''
       \<noteq> reject 400 (''Cannot cancel post with status: '' @ ''processing'')"
  by code_simp

text \<open>
  Claim C7, amended. For a cancel request by a logged-in requester on an existing intent:
  if the requester owns it and its status is \<open>pending\<close>, the answer is 200, the record is
  gone and so is every one of its media files, all other records and files staying; if the
  requester owns it and its status is anything else, the answer is the status error and
  database and disk are unchanged; if the requester does not own it, the answer is the
  authorization error, whatever the status, and database and disk are unchanged.
\<close>

theorem cancel_only_pending_by_owner:
  assumes "findById (database srv) ident = Some post" and "truthy session"
  shows
    "(session = Some (user_id post) \<and> status post = ''pending'' \<longrightarrow>
        (\<exists>resp srv'. delete_scheduled session ident srv = (resp, srv')
           \<and> code resp = 200 \<and> body_success resp
           \<and> findById (database srv') ident = None
           \<and> rows (database srv') = filter (\<lambda>r. post_id r \<noteq> ident) (rows (database srv))
           \<and> disk srv' = disk srv - set (media_paths post)))
     \<and> (session = Some (user_id post) \<and> status post \<noteq> ''pending'' \<longrightarrow>
          delete_scheduled session ident srv
            = (reject 400 (''Cannot cancel post with status: '' @ status post), srv))
     \<and> (session \<noteq> Some (user_id post) \<longrightarrow>
          delete_scheduled session ident srv
            = (reject 403 ''Not authorized to delete this post'', srv))"
  using assms
  by (auto simp: delete_scheduled_def requireAuth_def unlink_all_eq findById_delete rows_delete)

theorem cancel_only_pending_by_owner_witness:
  "findById (database sample_server) ''p4''
     = Some (sample_row ''p4'' [''facebook''] ''2026-11-03 09:30:00'' ''pending'')
   \<and> truthy (Some ''u1'')
   \<and> (\<exists>resp srv'. delete_scheduled (Some ''u1'') ''p4'' sample_server = (resp, srv')
          \<and> code resp = 200 \<and> findById (database srv') ''p4'' = None
          \<and> ''/uploads/scheduled/u1/p4.jpg'' \<notin> disk srv'
          \<and> ''/uploads/scheduled/u1/p5.jpg'' \<in> disk srv')
   \<and> delete_scheduled (Some ''u1'') ''p5'' sample_server
       = (reject 400 ''Cannot cancel post with status: processing'', sample_server)
   \<and> delete_scheduled (Some ''u2'') ''p4'' sample_server
       = (reject 403 ''Not authorized to delete this post'', sample_server)"
proof -
  let ?p4 = "sample_row ''p4'' [''facebook''] ''2026-11-03 09:30:00'' ''pending''"
  let ?p5 = "sample_row ''p5'' [''facebook''] ''2026-11-03 09:45:00'' ''processing''"
  have f4: "findById (database sample_server) ''p4'' = Some ?p4"
    by code_simp
  have f5: "findById (database sample_server) ''p5'' = Some ?p5"
    by code_simp
  have t1: "truthy (Some ''u1'')" and t2: "truthy (Some ''u2'')"
    by (simp_all add: truthy_def)
  have own: "Some ''u1'' = Some (user_id ?p4) \<and> status ?p4 = ''pending''"
    by (simp add: sample_row_def)
  with cancel_only_pending_by_owner [OF f4 t1]
  obtain resp srv' where a: "delete_scheduled (Some ''u1'') ''p4'' sample_server = (resp, srv')"
    "code resp = 200" "findById (database srv') ''p4'' = None"
    "disk srv' = disk sample_server - set (media_paths ?p4)"
    by blast
  from a(4) have a4: "''/uploads/scheduled/u1/p4.jpg'' \<notin> disk srv'"
    and a5: "''/uploads/scheduled/u1/p5.jpg'' \<in> disk srv'"
    by (simp_all add: sample_server_def sample_db_def sample_row_def)
  have "Some ''u1'' = Some (user_id ?p5) \<and> status ?p5 \<noteq> ''pending''"
    by (simp add: sample_row_def)
  with cancel_only_pending_by_owner [OF f5 t1]
  have "delete_scheduled (Some ''u1'') ''p5'' sample_server
       = (reject 400 (''Cannot cancel post with status: '' @ status ?p5), sample_server)"
    by blast
  then have b: "delete_scheduled (Some ''u1'') ''p5'' sample_server
       = (reject 400 ''Cannot cancel post with status: processing'', sample_server)"
    by (simp add: sample_row_def)
  have "Some ''u2'' \<noteq> Some (user_id ?p4)"
    by (simp add: sample_row_def)
  with cancel_only_pending_by_owner [OF f4 t2]
  have c: "delete_scheduled (Some ''u2'') ''p4'' sample_server
       = (reject 403 ''Not authorized to delete this post'', sample_server)"
    by blast
  from f4 t1 a(1,2,3) a4 a5 b c show ?thesis
    by blast
qed

text \<open>
  What the create route does with a request it rejects for its time: the answer is 400, the
  database is as before, and the disk holds what it held plus every file the upload
  middleware wrote for this request. The handler has no step that deletes them.
\<close>

lemma rejected_schedule_request_effect:
  assumes "truthy (session_userId req)" and "req_files req \<noteq> []"
    and "\<not> platforms_falsy (body_platforms req)" and "body_scheduledAt req = Some at"
    and "at \<noteq> []"
    and "Date_parse rt at = None \<or> (\<exists>ms. Date_parse rt at = Some ms \<and> ms \<le> now_ms rt)"
  shows "\<exists>resp. post_scheduled rt req srv =
           (resp, \<lparr>database = database srv,
                   disk = disk srv \<union> set (map path (req_files req))\<rparr>)
         \<and> code resp = 400 \<and> \<not> body_success resp"
  using assms
  by (auto simp: post_scheduled_def create_handler_def upload_array_def requireAuth_def
      truthy_def template_def reject_def)

text \<open>
  Claim C8, run on the code: a request whose time is in the past, and one whose time does
  not parse, are answered 400 and leave the database untouched, but the uploaded file,
  which was not on disk before, stays on disk.
\<close>

theorem rejected_schedule_request_keeps_upload:
  "post_scheduled sample_runtime (sample_request ''2020-01-01T00:00'') sample_server
     = (reject 400 ''Scheduled time must be in the future'',
        \<lparr>database = sample_db,
         disk = insert ''/uploads/scheduled/u1/1-b.jpg'' (disk sample_server)\<rparr>)
   \<and> post_scheduled sample_runtime (sample_request ''next week'') sample_server
     = (reject 400 ''Invalid scheduled time format'',
        \<lparr>database = sample_db,
         disk = insert ''/uploads/scheduled/u1/1-b.jpg'' (disk sample_server)\<rparr>)
   \<and> ''/uploads/scheduled/u1/1-b.jpg'' \<notin> disk sample_server"
  by code_simp

section \<open>Bounded polling\<close>

declare wait_loop.simps [simp del]

text \<open>One turn of the polling loop.\<close>

lemma wait_loop_unfold:
  "wait_loop w c tok n i =
     (if i < n
      then (case graph_status w (GRAPH_API_URL @ ''/'' @ c) i of
              Inl e \<Rightarrow> (Inl e, [Http ''GET'' (GRAPH_API_URL @ ''/'' @ c)])
            | Inr data \<Rightarrow>
                if status_code data = Some ''FINISHED''
                then (Inr True, [Http ''GET'' (GRAPH_API_URL @ ''/'' @ c)])
                else if status_code data = Some ''ERROR''
                then (Inl (Error (''Media processing failed: ''
                                   @ or_else (status_text data) ''Unknown error'')),
                      [Http ''GET'' (GRAPH_API_URL @ ''/'' @ c)])
                else (fst (wait_loop w c tok n (i + 1)),
                      Http ''GET'' (GRAPH_API_URL @ ''/'' @ c) # Sleep 5000
                        # snd (wait_loop w c tok n (i + 1))))
      else (Inl (Error ''Media processing timed out''), []))"
  by (subst wait_loop.simps)
    (simp add: await_def request_def resolve_def throw_def sleep_def
      split: sum.splits prod.splits)

lemma wait_loop_trace_prefix:
  "prefix (snd (wait_loop w c tok n i))
     (concat (replicate (n - i) [Http ''GET'' (GRAPH_API_URL @ ''/'' @ c), Sleep 5000]))"
proof (induction "n - i" arbitrary: i)
  case 0
  then show ?case
    by (subst wait_loop_unfold) simp
next
  case (Suc m)
  then have lt: "i < n" and m: "m = n - (i + 1)" and rep: "n - i = Suc (n - (i + 1))"
    by simp_all
  from Suc.hyps(1) [OF m] lt show ?case
    by (subst wait_loop_unfold) (simp add: rep split: sum.splits)
qed

lemma wait_loop_success_iff:
  "fst (wait_loop w c tok n i) = Inr b \<longleftrightarrow>
     b \<and> (\<exists>k. i \<le> k \<and> k < n \<and> polled_finished w c k
              \<and> (\<forall>j. i \<le> j \<and> j < k \<longrightarrow> polled_pending w c j))"
proof (induction "n - i" arbitrary: i)
  case 0
  then show ?case
    by (subst wait_loop_unfold) auto
next
  case (Suc m)
  then have lt: "i < n" and m: "m = n - (i + 1)"
    by simp_all
  note IH = Suc.hyps(1) [OF m]
  let ?rhs = "\<lambda>i. \<exists>k. i \<le> k \<and> k < n \<and> polled_finished w c k
              \<and> (\<forall>j. i \<le> j \<and> j < k \<longrightarrow> polled_pending w c j)"
  show ?case
  proof (cases "graph_status w (GRAPH_API_URL @ ''/'' @ c) i")
    case (Inl e)
    then have np: "\<not> polled_pending w c i" and nf: "\<not> polled_finished w c i"
      by (simp_all add: polled_pending_def polled_finished_def)
    have "\<not> ?rhs i"
    proof
      assume "?rhs i"
      then obtain k where k: "i \<le> k" "k < n" "polled_finished w c k"
        "\<forall>j. i \<le> j \<and> j < k \<longrightarrow> polled_pending w c j"
        by blast
      with nf have "i < k"
        by (cases "k = i") auto
      with k(4) np show False
        by auto
    qed
    with Inl lt show ?thesis
      by (subst wait_loop_unfold) simp
  next
    case (Inr data)
    consider (fin) "status_code data = Some ''FINISHED''"
      | (err) "status_code data = Some ''ERROR''"
      | (pend) "status_code data \<noteq> Some ''FINISHED''" "status_code data \<noteq> Some ''ERROR''"
      by blast
    then show ?thesis
    proof cases
      case fin
      with Inr have "polled_finished w c i"
        by (simp add: polled_finished_def)
      with lt have "?rhs i"
        by (intro exI [of _ i]) auto
      with Inr fin lt show ?thesis
        by (subst wait_loop_unfold) auto
    next
      case err
      with Inr have np: "\<not> polled_pending w c i" and nf: "\<not> polled_finished w c i"
        by (simp_all add: polled_pending_def polled_finished_def)
      have "\<not> ?rhs i"
      proof
        assume "?rhs i"
        then obtain k where k: "i \<le> k" "k < n" "polled_finished w c k"
          "\<forall>j. i \<le> j \<and> j < k \<longrightarrow> polled_pending w c j"
          by blast
        with nf have "i < k"
          by (cases "k = i") auto
        with k(4) np show False
          by auto
      qed
      with Inr err lt show ?thesis
        by (subst wait_loop_unfold) simp
    next
      case pend
      with Inr have p: "polled_pending w c i" and nf: "\<not> polled_finished w c i"
        by (simp_all add: polled_pending_def polled_finished_def)
      have "?rhs i \<longleftrightarrow> ?rhs (i + 1)"
      proof
        assume "?rhs i"
        then obtain k where k: "i \<le> k" "k < n" "polled_finished w c k"
          "\<forall>j. i \<le> j \<and> j < k \<longrightarrow> polled_pending w c j"
          by blast
        with nf have "i + 1 \<le> k"
          by (cases "k = i") auto
        with k show "?rhs (i + 1)"
          by (intro exI [of _ k]) auto
      next
        assume "?rhs (i + 1)"
        then obtain k where k: "i + 1 \<le> k" "k < n" "polled_finished w c k"
          "\<forall>j. i + 1 \<le> j \<and> j < k \<longrightarrow> polled_pending w c j"
          by blast
        have "polled_pending w c j" if "i \<le> j \<and> j < k" for j
          using that p k(4) by (cases "j = i") auto
        with k show "?rhs i"
          by (intro exI [of _ k]) auto
      qed
      with IH Inr pend lt show ?thesis
        by (subst wait_loop_unfold) simp
    qed
  qed
qed

lemma wait_loop_timeout:
  "(\<forall>j. i \<le> j \<and> j < n \<longrightarrow> polled_pending w c j) \<Longrightarrow>
   wait_loop w c tok n i =
     (Inl (Error ''Media processing timed out''),
      concat (replicate (n - i) [Http ''GET'' (GRAPH_API_URL @ ''/'' @ c), Sleep 5000]))"
proof (induction "n - i" arbitrary: i)
  case 0
  then show ?case
    by (subst wait_loop_unfold) simp
next
  case (Suc m)
  then have lt: "i < n" and m: "m = n - (i + 1)" and rep: "n - i = Suc (n - (i + 1))"
    by simp_all
  from Suc.prems lt have "polled_pending w c i"
    by simp
  then obtain data where d: "graph_status w (GRAPH_API_URL @ ''/'' @ c) i = Inr data"
    "status_code data \<noteq> Some ''FINISHED''" "status_code data \<noteq> Some ''ERROR''"
    unfolding polled_pending_def by blast
  from Suc.prems have "\<forall>j. i + 1 \<le> j \<and> j < n \<longrightarrow> polled_pending w c j"
    by simp
  from Suc.hyps(1) [OF m this] d lt show ?case
    by (subst wait_loop_unfold) (simp add: rep)
qed

lemma wait_loop_error:
  assumes "i \<le> k" "k < n" "\<forall>j. i \<le> j \<and> j < k \<longrightarrow> polled_pending w c j"
    and "graph_status w (GRAPH_API_URL @ ''/'' @ c) k = Inr data"
    and "status_code data = Some ''ERROR''"
  shows "fst (wait_loop w c tok n i) =
     Inl (Error (''Media processing failed: '' @ or_else (status_text data) ''Unknown error''))"
  using assms
proof (induction "k - i" arbitrary: i)
  case 0
  then have "i = k"
    by simp
  with 0 show ?case
    by (subst wait_loop_unfold) simp
next
  case (Suc m)
  then have lt: "i < k" and m: "m = k - (i + 1)"
    by simp_all
  with Suc.prems have "polled_pending w c i"
    by simp
  then obtain d where d: "graph_status w (GRAPH_API_URL @ ''/'' @ c) i = Inr d"
    "status_code d \<noteq> Some ''FINISHED''" "status_code d \<noteq> Some ''ERROR''"
    unfolding polled_pending_def by blast
  from Suc.prems lt have "i + 1 \<le> k" "\<forall>j. i + 1 \<le> j \<and> j < k \<longrightarrow> polled_pending w c j"
    by simp_all
  from Suc.hyps(1) [OF m this(1) Suc.prems(2) this(2) Suc.prems(4,5)] d lt Suc.prems(2)
  show ?case
    by (subst wait_loop_unfold) simp
qed

lemma filter_prefix_length: "prefix xs ys \<Longrightarrow> length (filter P xs) \<le> length (filter P ys)"
  by (auto simp: prefix_def)

lemma polls_in_full_schedule:
  "length (filter (\<lambda>ev. ev = Http ''GET'' url) (concat (replicate m [Http ''GET'' url, Sleep 5000])))
     = m"
  by (induction m) auto

lemma length_full_schedule:
  "length (concat (replicate m [Http ''GET'' url, Sleep 5000])) = 2 * m"
  by (induction m) auto

lemma set_full_schedule:
  "set (concat (replicate m [Http ''GET'' url, Sleep 5000])) \<subseteq> {Http ''GET'' url, Sleep 5000}"
  by (induction m) auto

lemma wait_events:
  "set (snd (waitForMediaReady w c tok n)) \<subseteq> {Http ''GET'' (GRAPH_API_URL @ ''/'' @ c), Sleep 5000}"
  using set_mono_prefix [OF wait_loop_trace_prefix [of w c tok n 0]]
    set_full_schedule [of n "GRAPH_API_URL @ ''/'' @ c"]
  by (auto simp: waitForMediaReady_def)

lemma create_items_events:
  "set (snd (create_items w cfg us))
     \<subseteq> {Http ''POST'' (GRAPH_API_URL @ ''/'' @ template (accountId cfg) @ ''/media'')}"
  by (induction us) (simp_all add: async_simps Let_def split: sum.splits)

lemma ig_postVideo_not_ready:
  assumes "graph_post w (GRAPH_API_URL @ ''/'' @ template (accountId cfg) @ ''/media'')
             [(''video_url'', Text u), (''caption'', Text cap), (''media_type'', Text ''REELS''),
              (''access_token'', Text (template (ig_accessToken cfg)))] = Inr r"
    and "fst (waitForMediaReady w (template (data_id r)) (template (ig_accessToken cfg)) 60) = Inl e"
  shows "fst (ig_postVideo w u cap cfg) = Inl e"
    and "Http ''POST'' (GRAPH_API_URL @ ''/'' @ template (accountId cfg) @ ''/media_publish'')
           \<notin> set (snd (ig_postVideo w u cap cfg))"
proof -
  show "fst (ig_postVideo w u cap cfg) = Inl e"
    using assms by (simp add: ig_postVideo_def async_simps Let_def)
  have "snd (ig_postVideo w u cap cfg) =
          Http ''POST'' (GRAPH_API_URL @ ''/'' @ template (accountId cfg) @ ''/media'')
          # snd (waitForMediaReady w (template (data_id r)) (template (ig_accessToken cfg)) 60)"
    using assms by (simp add: ig_postVideo_def async_simps Let_def)
  moreover have "Http ''POST'' (GRAPH_API_URL @ ''/'' @ template (accountId cfg) @ ''/media_publish'')
      \<noteq> Http ''POST'' (GRAPH_API_URL @ ''/'' @ template (accountId cfg) @ ''/media'')"
    by simp
  moreover have "Http ''POST'' (GRAPH_API_URL @ ''/'' @ template (accountId cfg) @ ''/media_publish'')
      \<notin> {Http ''GET'' (GRAPH_API_URL @ ''/'' @ template (data_id r)), Sleep 5000}"
    by simp
  with wait_events [of w "template (data_id r)" "template (ig_accessToken cfg)" 60]
  have "Http ''POST'' (GRAPH_API_URL @ ''/'' @ template (accountId cfg) @ ''/media_publish'')
      \<notin> set (snd (waitForMediaReady w (template (data_id r)) (template (ig_accessToken cfg)) 60))"
    by blast
  ultimately
  show "Http ''POST'' (GRAPH_API_URL @ ''/'' @ template (accountId cfg) @ ''/media_publish'')
           \<notin> set (snd (ig_postVideo w u cap cfg))"
    by simp
qed

lemma ig_postCarousel_not_ready:
  assumes "fst (create_items w cfg us) = Inr ids"
    and "graph_post w (GRAPH_API_URL @ ''/'' @ template (accountId cfg) @ ''/media'')
             [(''media_type'', Text ''CAROUSEL''), (''children'', MediaIds ids),
              (''caption'', Text cap),
              (''access_token'', Text (template (ig_accessToken cfg)))] = Inr r"
    and "fst (waitForMediaReady w (template (data_id r)) (template (ig_accessToken cfg)) 60) = Inl e"
  shows "fst (ig_postCarousel w us cap cfg) = Inl e"
    and "Http ''POST'' (GRAPH_API_URL @ ''/'' @ template (accountId cfg) @ ''/media_publish'')
           \<notin> set (snd (ig_postCarousel w us cap cfg))"
proof -
  show "fst (ig_postCarousel w us cap cfg) = Inl e"
    using assms by (simp add: ig_postCarousel_def async_simps Let_def)
  have "snd (ig_postCarousel w us cap cfg) =
          snd (create_items w cfg us)
          @ Http ''POST'' (GRAPH_API_URL @ ''/'' @ template (accountId cfg) @ ''/media'')
          # snd (waitForMediaReady w (template (data_id r)) (template (ig_accessToken cfg)) 60)"
    using assms by (simp add: ig_postCarousel_def async_simps Let_def)
  moreover have ne: "Http ''POST'' (GRAPH_API_URL @ ''/'' @ template (accountId cfg) @ ''/media_publish'')
      \<noteq> Http ''POST'' (GRAPH_API_URL @ ''/'' @ template (accountId cfg) @ ''/media'')"
    by simp
  moreover have "Http ''POST'' (GRAPH_API_URL @ ''/'' @ template (accountId cfg) @ ''/media_publish'')
      \<notin> {Http ''GET'' (GRAPH_API_URL @ ''/'' @ template (data_id r)), Sleep 5000}"
    by simp
  with wait_events [of w "template (data_id r)" "template (ig_accessToken cfg)" 60]
  have "Http ''POST'' (GRAPH_API_URL @ ''/'' @ template (accountId cfg) @ ''/media_publish'')
      \<notin> set (snd (waitForMediaReady w (template (data_id r)) (template (ig_accessToken cfg)) 60))"
    by blast
  moreover from ne create_items_events [of w cfg us]
  have "Http ''POST'' (GRAPH_API_URL @ ''/'' @ template (accountId cfg) @ ''/media_publish'')
      \<notin> set (snd (create_items w cfg us))"
    by blast
  ultimately
  show "Http ''POST'' (GRAPH_API_URL @ ''/'' @ template (accountId cfg) @ ''/media_publish'')
           \<notin> set (snd (ig_postCarousel w us cap cfg))"
    by simp
qed

text \<open>
  Claim C9. \<open>waitForMediaReady\<close> is a total function: for every sequence of answers to
  its status polls it returns or throws after at most \<open>maxAttempts\<close> polls. What it
  has issued by then is an initial part of the schedule poll, wait 5000 ms, poll, wait
  5000 ms, ... of \<open>maxAttempts\<close> polls. It returns (and then returns true) exactly when
  some poll within the bound answers \<open>FINISHED\<close> and every earlier poll answered with a
  status other than \<open>FINISHED\<close> and \<open>ERROR\<close>. If no poll within the bound ends the
  wait, it throws the timeout error after \<open>maxAttempts\<close> polls; if a poll answers
  \<open>ERROR\<close>, it throws the processing error. When the wait throws, the video and the
  carousel functions throw the same error and never send the publish request.
\<close>

theorem waitForMediaReady_bounded_polling:
  "prefix (snd (waitForMediaReady w c tok n))
     (concat (replicate n [Http ''GET'' (GRAPH_API_URL @ ''/'' @ c), Sleep 5000]))
   \<and> length (filter (\<lambda>ev. ev = Http ''GET'' (GRAPH_API_URL @ ''/'' @ c))
               (snd (waitForMediaReady w c tok n))) \<le> n
   \<and> length (snd (waitForMediaReady w c tok n)) \<le> 2 * n
   \<and> (\<forall>b. fst (waitForMediaReady w c tok n) = Inr b \<longleftrightarrow>
          b \<and> (\<exists>k < n. polled_finished w c k \<and> (\<forall>j < k. polled_pending w c j)))
   \<and> ((\<forall>j < n. polled_pending w c j) \<longrightarrow>
         waitForMediaReady w c tok n =
           (Inl (Error ''Media processing timed out''),
            concat (replicate n [Http ''GET'' (GRAPH_API_URL @ ''/'' @ c), Sleep 5000])))
   \<and> (\<forall>k data. k < n \<and> (\<forall>j < k. polled_pending w c j)
          \<and> graph_status w (GRAPH_API_URL @ ''/'' @ c) k = Inr data
          \<and> status_code data = Some ''ERROR'' \<longrightarrow>
          fst (waitForMediaReady w c tok n) =
            Inl (Error (''Media processing failed: ''
                          @ or_else (status_text data) ''Unknown error'')))
   \<and> (\<forall>r e. graph_post w (GRAPH_API_URL @ ''/'' @ template (accountId cfg) @ ''/media'')
                 [(''video_url'', Text u), (''caption'', Text cap),
                  (''media_type'', Text ''REELS''),
                  (''access_token'', Text (template (ig_accessToken cfg)))] = Inr r
          \<and> fst (waitForMediaReady w (template (data_id r))
                    (template (ig_accessToken cfg)) 60) = Inl e \<longrightarrow>
          fst (ig_postVideo w u cap cfg) = Inl e
          \<and> Http ''POST'' (GRAPH_API_URL @ ''/'' @ template (accountId cfg) @ ''/media_publish'')
               \<notin> set (snd (ig_postVideo w u cap cfg)))
   \<and> (\<forall>ids r e. fst (create_items w cfg us) = Inr ids
          \<and> graph_post w (GRAPH_API_URL @ ''/'' @ template (accountId cfg) @ ''/media'')
                 [(''media_type'', Text ''CAROUSEL''), (''children'', MediaIds ids),
                  (''caption'', Text cap),
                  (''access_token'', Text (template (ig_accessToken cfg)))] = Inr r
          \<and> fst (waitForMediaReady w (template (data_id r))
                    (template (ig_accessToken cfg)) 60) = Inl e \<longrightarrow>
          fst (ig_postCarousel w us cap cfg) = Inl e
          \<and> Http ''POST'' (GRAPH_API_URL @ ''/'' @ template (accountId cfg) @ ''/media_publish'')
               \<notin> set (snd (ig_postCarousel w us cap cfg)))"
proof -
  let ?url = "GRAPH_API_URL @ ''/'' @ c"
  let ?full = "concat (replicate n [Http ''GET'' ?url, Sleep 5000])"
  have pre: "prefix (snd (waitForMediaReady w c tok n)) ?full"
    using wait_loop_trace_prefix [of w c tok n 0] by (simp add: waitForMediaReady_def)
  have polls: "length (filter (\<lambda>ev. ev = Http ''GET'' ?url) (snd (waitForMediaReady w c tok n))) \<le> n"
    using filter_prefix_length [OF pre, of "\<lambda>ev. ev = Http ''GET'' ?url"]
      polls_in_full_schedule [of ?url n]
    by simp
  have len: "length (snd (waitForMediaReady w c tok n)) \<le> 2 * n"
    using prefix_length_le [OF pre] length_full_schedule [of n ?url] by simp
  have ok: "fst (waitForMediaReady w c tok n) = Inr b \<longleftrightarrow>
          b \<and> (\<exists>k < n. polled_finished w c k \<and> (\<forall>j < k. polled_pending w c j))" for b
    using wait_loop_success_iff [of w c tok n 0 b] by (simp add: waitForMediaReady_def)
  have timeout: "(\<forall>j < n. polled_pending w c j) \<longrightarrow>
         waitForMediaReady w c tok n = (Inl (Error ''Media processing timed out''), ?full)"
    using wait_loop_timeout [of 0 n w c tok] by (simp add: waitForMediaReady_def)
  have err: "k < n \<and> (\<forall>j < k. polled_pending w c j)
          \<and> graph_status w ?url k = Inr data \<and> status_code data = Some ''ERROR'' \<longrightarrow>
          fst (waitForMediaReady w c tok n) =
            Inl (Error (''Media processing failed: ''
                          @ or_else (status_text data) ''Unknown error''))" for k data
    using wait_loop_error [of 0 k n w c data tok] by (simp add: waitForMediaReady_def)
  note vid = ig_postVideo_not_ready [of w cfg u cap]
  note car = ig_postCarousel_not_ready [of w cfg us _ cap]
  from pre polls len ok timeout err vid car show ?thesis
    by (intro conjI allI impI) blast+
qed

theorem waitForMediaReady_bounded_polling_witness:
  "polled_pending online ''c1'' 0 \<and> polled_pending online ''c1'' 1
   \<and> polled_finished online ''c1'' 2
   \<and> waitForMediaReady online ''c1'' ''tok'' 2
       = (Inl (Error ''Media processing timed out''),
          [Http ''GET'' (GRAPH_API_URL @ ''/c1''), Sleep 5000,
           Http ''GET'' (GRAPH_API_URL @ ''/c1''), Sleep 5000])
   \<and> fst (waitForMediaReady online ''c1'' ''tok'' 60) = Inr True
   \<and> length (snd (waitForMediaReady online ''c1'' ''tok'' 60)) \<le> 120
   \<and> snd (waitForMediaReady online ''c1'' ''tok'' 60)
       = [Http ''GET'' (GRAPH_API_URL @ ''/c1''), Sleep 5000,
          Http ''GET'' (GRAPH_API_URL @ ''/c1''), Sleep 5000,
          Http ''GET'' (GRAPH_API_URL @ ''/c1'')]"
proof -
  have p0: "polled_pending online ''c1'' 0" and p1: "polled_pending online ''c1'' 1"
    and f2: "polled_finished online ''c1'' 2"
    by (simp_all add: polled_pending_def polled_finished_def online_def)
  have all: "\<forall>j < 2. polled_pending online ''c1'' j"
  proof (intro allI impI)
    fix j :: nat
    assume "j < 2"
    then have "j = 0 \<or> j = 1"
      by auto
    with p0 p1 show "polled_pending online ''c1'' j"
      by auto
  qed
  note two = waitForMediaReady_bounded_polling [of online "''c1''" "''tok''" 2]
  from two all have "waitForMediaReady online ''c1'' ''tok'' 2 =
      (Inl (Error ''Media processing timed out''),
       concat (replicate 2 [Http ''GET'' (GRAPH_API_URL @ ''/'' @ ''c1''), Sleep 5000]))"
    by blast
  then have t: "waitForMediaReady online ''c1'' ''tok'' 2
       = (Inl (Error ''Media processing timed out''),
          [Http ''GET'' (GRAPH_API_URL @ ''/c1''), Sleep 5000,
           Http ''GET'' (GRAPH_API_URL @ ''/c1''), Sleep 5000])"
    by (simp add: numeral_2_eq_2)
  note sixty = waitForMediaReady_bounded_polling [of online "''c1''" "''tok''" 60]
  have "\<exists>k < 60. polled_finished online ''c1'' k \<and> (\<forall>j < k. polled_pending online ''c1'' j)"
    using f2 all by (intro exI [of _ 2]) simp
  with sixty have ok: "fst (waitForMediaReady online ''c1'' ''tok'' 60) = Inr True"
    by blast
  from sixty have len: "length (snd (waitForMediaReady online ''c1'' ''tok'' 60)) \<le> 120"
    by simp
  have tr: "snd (waitForMediaReady online ''c1'' ''tok'' 60)
       = [Http ''GET'' (GRAPH_API_URL @ ''/c1''), Sleep 5000,
          Http ''GET'' (GRAPH_API_URL @ ''/c1''), Sleep 5000,
          Http ''GET'' (GRAPH_API_URL @ ''/c1'')]"
    by code_simp
  from p0 p1 f2 t ok len tr show ?thesis
    by blast
qed

end
